theory Spec2Isabelle
  imports
    Main
    "HOL-Library.Signed_Division"
    "HOL-Library.Char_ord"
    "HOL-Library.List_Lexorder"
begin

section \<open>Go values\<close>

text \<open>
  A Go \<^verbatim>\<open>string\<close> and a \<^verbatim>\<open>[]byte\<close> are sequences of bytes: both are modelled as
  \<^typ>\<open>string\<close>, whose characters are the 256 byte values. A Go \<^verbatim>\<open>int\<close> is modelled as
  \<^typ>\<open>int\<close>; the only arithmetic the program does on one is a division and a remainder
  by 60, which cannot overflow, and a value decoded from JSON is checked against the
  64-bit range where it is decoded. A pointer that may be \<^verbatim>\<open>nil\<close> is an \<^typ>\<open>'a option\<close>.
\<close>

subsection \<open>Package fmt: the integer verbs\<close>

definition digit_char :: "nat \<Rightarrow> char" where
  "digit_char d = ''0123456789'' ! d"

fun dec_nat :: "nat \<Rightarrow> string" where
  "dec_nat n = (if n < 10 then [digit_char n] else dec_nat (n div 10) @ [digit_char (n mod 10)])"

declare dec_nat.simps [simp del]

text \<open>\<^verbatim>\<open>%d\<close>: base 10, a minus sign before a negative value.\<close>

definition fmt_d :: "int \<Rightarrow> string" where
  "fmt_d i = (if i < 0 then CHR ''-'' # dec_nat (nat (- i)) else dec_nat (nat i))"

text \<open>\<^verbatim>\<open>%+d\<close>: as \<^verbatim>\<open>%d\<close>, with a plus sign before a value that is not negative.\<close>

definition fmt_plus_d :: "int \<Rightarrow> string" where
  "fmt_plus_d i = (if i < 0 then CHR ''-'' # dec_nat (nat (- i)) else CHR ''+'' # dec_nat (nat i))"

subsection \<open>Package unicode/utf8\<close>

text \<open>
  Runes are code points, modelled as \<^typ>\<open>nat\<close>. \<open>DecodeRune\<close> is \<^verbatim>\<open>utf8.DecodeRuneInString\<close>:
  the first rune of the string and its width in bytes, \<open>(RuneError, 0)\<close> for the empty
  string and \<open>(RuneError, 1)\<close> where the bytes are not a well-formed encoding.
\<close>

definition RuneError :: nat where
  "RuneError = 0xFFFD"

definition RuneSelf :: nat where
  "RuneSelf = 0x80"

definition byte_of :: "char \<Rightarrow> nat" where
  "byte_of c = of_char c"

definition DecodeRune :: "string \<Rightarrow> nat \<times> nat" where
  "DecodeRune s =
     (if s = [] then (RuneError, 0)
      else
        let s0 = byte_of (s ! 0) in
        if s0 < RuneSelf then (s0, 1)
        else if s0 < 0xC2 \<or> 0xF4 < s0 then (RuneError, 1)
        else
          let sz = (if s0 < 0xE0 then 2 else if s0 < 0xF0 then 3 else 4 :: nat);
              lo = (if s0 = 0xE0 then 0xA0 else if s0 = 0xF0 then 0x90 else 0x80);
              hi = (if s0 = 0xED then 0x9F else if s0 = 0xF4 then 0x8F else 0xBF)
          in
          if length s < sz then (RuneError, 1)
          else
            let s1 = byte_of (s ! 1) in
            if s1 < lo \<or> hi < s1 then (RuneError, 1)
            else if sz \<le> 2 then ((s0 mod 32) * 64 + s1 mod 64, 2)
            else
              let s2 = byte_of (s ! 2) in
              if s2 < 0x80 \<or> 0xBF < s2 then (RuneError, 1)
              else if sz \<le> 3 then ((s0 mod 16) * 4096 + (s1 mod 64) * 64 + s2 mod 64, 3)
              else
                let s3 = byte_of (s ! 3) in
                if s3 < 0x80 \<or> 0xBF < s3 then (RuneError, 1)
                else ((s0 mod 8) * 262144 + (s1 mod 64) * 4096 + (s2 mod 64) * 64 + s3 mod 64, 4))"

text \<open>\<^verbatim>\<open>utf8.RuneStart\<close>: the byte is not a continuation byte.\<close>

definition RuneStart :: "char \<Rightarrow> bool" where
  "RuneStart b \<longleftrightarrow> \<not> (0x80 \<le> byte_of b \<and> byte_of b \<le> 0xBF)"

text \<open>
  The backwards search of \<^verbatim>\<open>utf8.DecodeLastRuneInString\<close>:
  \<^verbatim>\<open>for start--; start >= lim; start-- { if RuneStart(s[start]) { break } }\<close>,
  entered with \<open>start\<close> already decremented.
\<close>

function back_to_start :: "string \<Rightarrow> int \<Rightarrow> int \<Rightarrow> int" where
  "back_to_start s start lim =
     (if lim \<le> start \<and> 0 \<le> start
      then (if RuneStart (s ! nat start) then start else back_to_start s (start - 1) lim)
      else start)"
  by pat_completeness auto
termination
  by (relation "measure (\<lambda>(s, start, lim). nat (start + 1))") auto

declare back_to_start.simps [simp del]

definition DecodeLastRune :: "string \<Rightarrow> nat \<times> nat" where
  "DecodeLastRune s =
     (let end = int (length s) in
      if end = 0 then (RuneError, 0)
      else
        let r = byte_of (s ! nat (end - 1)) in
        if r < RuneSelf then (r, 1)
        else
          let lim = (if end - 4 < 0 then 0 else end - 4);
              start = back_to_start s (end - 2) lim;
              start = (if start < 0 then 0 else start);
              (r, width) = DecodeRune (drop (nat start) s)
          in if start + int width \<noteq> end then (RuneError, 1) else (r, width))"

subsection \<open>Package unicode\<close>

text \<open>\<^verbatim>\<open>unicode.IsSpace\<close>: the code points with the White_Space property.\<close>

definition IsSpace :: "nat \<Rightarrow> bool" where
  "IsSpace r \<longleftrightarrow>
     (if r \<le> 0xFF then r \<in> {0x09, 0x0A, 0x0B, 0x0C, 0x0D, 0x20, 0x85, 0xA0}
      else r = 0x1680 \<or> (0x2000 \<le> r \<and> r \<le> 0x200A) \<or> r = 0x2028 \<or> r = 0x2029 \<or>
           r = 0x202F \<or> r = 0x205F \<or> r = 0x3000)"

subsection \<open>Package strings\<close>

text \<open>The table \<^verbatim>\<open>asciiSpace\<close>: tab, line feed, vertical tab, form feed, carriage return, space.\<close>

definition asciiSpace :: "char \<Rightarrow> bool" where
  "asciiSpace c \<longleftrightarrow> byte_of c \<in> {0x09, 0x0A, 0x0B, 0x0C, 0x0D, 0x20}"

lemma DecodeRune_size_pos: "s \<noteq> [] \<Longrightarrow> 0 < snd (DecodeRune s)"
  by (simp add: DecodeRune_def Let_def)

text \<open>
  \<^verbatim>\<open>strings.TrimLeftFunc(s, f)\<close>: the loop \<^verbatim>\<open>for i, r := range s\<close> of \<^verbatim>\<open>indexFunc\<close> decodes
  one rune after the other and stops at the first that \<open>f\<close> rejects.
\<close>

function TrimLeftFunc :: "string \<Rightarrow> (nat \<Rightarrow> bool) \<Rightarrow> string" where
  "TrimLeftFunc s f =
     (if s = [] then []
      else case DecodeRune s of (r, width) \<Rightarrow> if f r then TrimLeftFunc (drop width s) f else s)"
  by pat_completeness auto
termination
proof (relation "measure (\<lambda>(s, f). length s)")
  fix s :: string and f :: "nat \<Rightarrow> bool" and x r width
  assume "s \<noteq> []" and "(r, width) = DecodeRune s"
  then have "0 < width"
    using DecodeRune_size_pos [of s] by (cases "DecodeRune s") auto
  with \<open>s \<noteq> []\<close> show "((drop width s, f), (s, f)) \<in> measure (\<lambda>(s, f). length s)"
    by simp
qed simp

declare TrimLeftFunc.simps [simp del]

lemma back_to_start_le: "back_to_start s start lim \<le> start"
  by (induction s start lim rule: back_to_start.induct)
     (subst back_to_start.simps, auto)

lemma DecodeLastRune_size_pos: "s \<noteq> [] \<Longrightarrow> 0 < snd (DecodeLastRune s)"
proof -
  assume s: "s \<noteq> []"
  define start0 where "start0 = back_to_start s (int (length s) - 2)
    (if int (length s) - 4 < 0 then 0 else int (length s) - 4)"
  define start where "start = (if start0 < 0 then 0 else start0)"
  have "start0 \<le> int (length s) - 2"
    unfolding start0_def by (rule back_to_start_le)
  with s have lt: "nat start < length s"
    by (cases s) (auto simp: start_def)
  then have "drop (nat start) s \<noteq> []" by simp
  from DecodeRune_size_pos [OF this] s show ?thesis
    by (auto simp: DecodeLastRune_def Let_def start0_def start_def split: prod.splits)
qed

text \<open>
  \<^verbatim>\<open>lastIndexFunc(s, f, false)\<close>: the index of the last rune that \<open>f\<close> rejects, \<open>-1\<close> when
  there is none; \<open>i\<close> is the loop variable, \<open>len(s)\<close> at the start.
\<close>

function lastIndexFunc :: "string \<Rightarrow> (nat \<Rightarrow> bool) \<Rightarrow> nat \<Rightarrow> int" where
  "lastIndexFunc s f i =
     (if 0 < i \<and> i \<le> length s
      then case DecodeLastRune (take i s) of (r, width) \<Rightarrow>
             if \<not> f r then int i - int width else lastIndexFunc s f (i - width)
      else - 1)"
  by pat_completeness auto
termination
proof (relation "measure (\<lambda>(s, f, i). i)")
  fix s :: string and f :: "nat \<Rightarrow> bool" and i x r width
  assume i: "0 < i \<and> i \<le> length s" and d: "(r, width) = DecodeLastRune (take i s)"
  from i have "take i s \<noteq> []" by auto
  then have "0 < width"
    using DecodeLastRune_size_pos [of "take i s"] d
    by (cases "DecodeLastRune (take i s)") auto
  with i show "((s, f, i - width), (s, f, i)) \<in> measure (\<lambda>(s, f, i). i)"
    by simp
qed simp

declare lastIndexFunc.simps [simp del]

definition TrimRightFunc :: "string \<Rightarrow> (nat \<Rightarrow> bool) \<Rightarrow> string" where
  "TrimRightFunc s f =
     (let i = lastIndexFunc s f (length s);
          i = (if 0 \<le> i \<and> RuneSelf \<le> byte_of (s ! nat i)
               then i + int (snd (DecodeRune (drop (nat i) s)))
               else i + 1)
      in take (nat i) s)"

definition TrimFunc :: "string \<Rightarrow> (nat \<Rightarrow> bool) \<Rightarrow> string" where
  "TrimFunc s f = TrimRightFunc (TrimLeftFunc s f) f"

text \<open>
  \<^verbatim>\<open>strings.TrimSpace\<close>. The second loop of the Go function, from the end of \<open>s[start:]\<close>:
  ASCII white space is cut; a byte outside ASCII hands over to \<open>TrimRightFunc\<close>.
\<close>

function TrimSpace_stop :: "string \<Rightarrow> string" where
  "TrimSpace_stop s =
     (if s = [] then []
      else if RuneSelf \<le> byte_of (last s) then TrimRightFunc s IsSpace
      else if asciiSpace (last s) then TrimSpace_stop (butlast s)
      else s)"
  by pat_completeness auto
termination
  by (relation "measure length") auto

declare TrimSpace_stop.simps [simp del]

text \<open>
  The first loop, from the start: ASCII white space is skipped; a byte outside ASCII hands
  over to \<open>TrimFunc\<close> on the rest.
\<close>

fun TrimSpace :: "string \<Rightarrow> string" where
  "TrimSpace [] = []"
| "TrimSpace (c # cs) =
     (if RuneSelf \<le> byte_of c then TrimFunc (c # cs) IsSpace
      else if asciiSpace c then TrimSpace cs
      else TrimSpace_stop (c # cs))"

text \<open>
  \<^verbatim>\<open>strings.Cut(s, sep)\<close> for a separator of one byte: the text before the first \<open>sep\<close>, the
  text after it, and whether \<open>sep\<close> occurs; \<open>(s, "", false)\<close> when it does not.
\<close>

fun Cut :: "string \<Rightarrow> char \<Rightarrow> string \<times> string \<times> bool" where
  "Cut [] sep = ([], [], False)"
| "Cut (c # cs) sep =
     (if c = sep then ([], cs, True)
      else case Cut cs sep of (before, after, found) \<Rightarrow> (c # before, after, found))"

definition HasPrefix :: "string \<Rightarrow> string \<Rightarrow> bool" where
  "HasPrefix s p \<longleftrightarrow> take (length p) s = p"

definition HasSuffix :: "string \<Rightarrow> string \<Rightarrow> bool" where
  "HasSuffix s p \<longleftrightarrow> length p \<le> length s \<and> drop (length s - length p) s = p"

text \<open>\<^verbatim>\<open>strings.Contains(s, sep)\<close> and \<^verbatim>\<open>strings.Count(s, sep)\<close> for a separator of one byte.\<close>

definition Contains :: "string \<Rightarrow> char \<Rightarrow> bool" where
  "Contains s sep \<longleftrightarrow> sep \<in> set s"

definition Count :: "string \<Rightarrow> char \<Rightarrow> nat" where
  "Count s sep = length (filter (\<lambda>c. c = sep) s)"

text \<open>\<^verbatim>\<open>strings.IndexByte\<close>, \<^verbatim>\<open>strings.LastIndexByte\<close> and \<^verbatim>\<open>strings.Index\<close>: \<open>-1\<close> when absent.\<close>

fun IndexByte :: "string \<Rightarrow> char \<Rightarrow> int" where
  "IndexByte [] c = - 1"
| "IndexByte (x # xs) c =
     (if x = c then 0 else let i = IndexByte xs c in if i < 0 then - 1 else i + 1)"

definition LastIndexByte :: "string \<Rightarrow> char \<Rightarrow> int" where
  "LastIndexByte s c =
     (let i = IndexByte (rev s) c in if i < 0 then - 1 else int (length s) - 1 - i)"

fun Index :: "string \<Rightarrow> string \<Rightarrow> int" where
  "Index [] sub = (if sub = [] then 0 else - 1)"
| "Index (x # xs) sub =
     (if take (length sub) (x # xs) = sub then 0
      else let i = Index xs sub in if i < 0 then - 1 else i + 1)"

text \<open>
  \<^verbatim>\<open>strings.TrimLeft(s, cutset)\<close> and \<^verbatim>\<open>strings.TrimRight(s, cutset)\<close> for a cutset of one
  ASCII byte: the leading, or trailing, run of that byte is removed.
\<close>

definition TrimLeft :: "string \<Rightarrow> char \<Rightarrow> string" where
  "TrimLeft s c = dropWhile (\<lambda>x. x = c) s"

definition TrimRight :: "string \<Rightarrow> char \<Rightarrow> string" where
  "TrimRight s c = rev (dropWhile (\<lambda>x. x = c) (rev s))"

text \<open>\<^verbatim>\<open>strings.ToLower\<close> on ASCII text, which is all a URL scheme can hold.\<close>

definition ToLower :: "string \<Rightarrow> string" where
  "ToLower s = map (\<lambda>c. if CHR ''A'' \<le> c \<and> c \<le> CHR ''Z'' then char_of (byte_of c + 32) else c) s"

section \<open>Package net/url\<close>

text \<open>
  The functions of Go's standard library that the client calls on URLs, as they stand in
  \<^verbatim>\<open>net/url/url.go\<close>: \<^verbatim>\<open>Parse\<close>, \<^verbatim>\<open>URL.String\<close>, \<^verbatim>\<open>Values.Encode\<close>, \<^verbatim>\<open>ParseQuery\<close> and what
  they are made of.
\<close>

subsection \<open>Escaping\<close>

datatype encoding =
    encodePath | encodePathSegment | encodeHost | encodeZone
  | encodeUserPassword | encodeQueryComponent | encodeFragment

datatype url_error =
    InvalidControlCharacter
  | MissingProtocolScheme
  | FirstPathSegmentColon
  | EscapeError string
  | InvalidHostError string
  | InvalidPort string
  | MissingBracket
  | InvalidUserinfo
  | InvalidSemicolon
  | EmptyURL
  | InvalidURIForRequest

definition ishex :: "char \<Rightarrow> bool" where
  "ishex c \<longleftrightarrow>
     (CHR ''0'' \<le> c \<and> c \<le> CHR ''9'') \<or> (CHR ''a'' \<le> c \<and> c \<le> CHR ''f'') \<or>
     (CHR ''A'' \<le> c \<and> c \<le> CHR ''F'')"

definition unhex :: "char \<Rightarrow> nat" where
  "unhex c =
     (if CHR ''0'' \<le> c \<and> c \<le> CHR ''9'' then byte_of c - 48
      else if CHR ''a'' \<le> c \<and> c \<le> CHR ''f'' then byte_of c - 97 + 10
      else if CHR ''A'' \<le> c \<and> c \<le> CHR ''F'' then byte_of c - 65 + 10
      else 0)"

definition upperhex :: string where
  "upperhex = ''0123456789ABCDEF''"

text \<open>\<^verbatim>\<open>shouldEscape(c, mode)\<close>: whether the byte must be percent-encoded in that part of a URL.\<close>

definition shouldEscape :: "char \<Rightarrow> encoding \<Rightarrow> bool" where
  "shouldEscape c mode =
     (if (CHR ''a'' \<le> c \<and> c \<le> CHR ''z'') \<or> (CHR ''A'' \<le> c \<and> c \<le> CHR ''Z'') \<or>
         (CHR ''0'' \<le> c \<and> c \<le> CHR ''9'') then False
      else if (mode = encodeHost \<or> mode = encodeZone) \<and>
              c \<in> set (''!$&'' @ [CHR 0x27] @ ''()*+,;=:[]<>'' @ [CHR 0x22]) then False
      else if c \<in> set ''-_.~'' then False
      else if c \<in> set ''$&+,/:;=?@'' \<and> mode = encodePath then c = CHR ''?''
      else if c \<in> set ''$&+,/:;=?@'' \<and> mode = encodePathSegment then c \<in> set ''/;,?''
      else if c \<in> set ''$&+,/:;=?@'' \<and> mode = encodeUserPassword then c \<in> set ''@/?:''
      else if c \<in> set ''$&+,/:;=?@'' \<and> mode = encodeQueryComponent then True
      else if c \<in> set ''$&+,/:;=?@'' \<and> mode = encodeFragment then False
      else if mode = encodeFragment \<and> c \<in> set ''!()*'' then False
      else True)"

text \<open>
  \<^verbatim>\<open>escape(s, mode)\<close>: a space becomes \<open>+\<close> in a query component, a byte that
  \<open>shouldEscape\<close> becomes \<open>%XX\<close> in upper-case hexadecimal, every other byte stays.
\<close>

definition escape_byte :: "encoding \<Rightarrow> char \<Rightarrow> string" where
  "escape_byte mode c =
     (if c = CHR '' '' \<and> mode = encodeQueryComponent then ''+''
      else if shouldEscape c mode
      then [CHR ''%'', upperhex ! (byte_of c div 16), upperhex ! (byte_of c mod 16)]
      else [c])"

definition escape :: "string \<Rightarrow> encoding \<Rightarrow> string" where
  "escape s mode = concat (map (escape_byte mode) s)"

text \<open>
  \<^verbatim>\<open>unescape(s, mode)\<close>. The Go function checks the whole string first and converts it
  afterwards; the first malformed place, from the left, is the error either way.
\<close>

fun unescape :: "string \<Rightarrow> encoding \<Rightarrow> url_error + string" where
  "unescape [] mode = Inr []"
| "unescape (c # cs) mode =
     (if c = CHR ''%'' then
        (case cs of
           h1 # h2 # rest \<Rightarrow>
             if \<not> ishex h1 \<or> \<not> ishex h2 then Inl (EscapeError [c, h1, h2])
             else if mode = encodeHost \<and> unhex h1 < 8 \<and> [c, h1, h2] \<noteq> ''%25''
               then Inl (EscapeError [c, h1, h2])
             else if mode = encodeZone \<and> [c, h1, h2] \<noteq> ''%25'' \<and>
                     unhex h1 * 16 + unhex h2 \<noteq> 32 \<and>
                     shouldEscape (char_of (unhex h1 * 16 + unhex h2)) encodeHost
               then Inl (EscapeError [c, h1, h2])
             else (case unescape rest mode of
                     Inl e \<Rightarrow> Inl e
                   | Inr t \<Rightarrow> Inr (char_of (unhex h1 * 16 + unhex h2) # t))
         | _ \<Rightarrow> Inl (EscapeError (c # cs)))
      else if c = CHR ''+'' then
        (case unescape cs mode of
           Inl e \<Rightarrow> Inl e
         | Inr t \<Rightarrow> Inr ((if mode = encodeQueryComponent then CHR '' '' else CHR ''+'') # t))
      else if (mode = encodeHost \<or> mode = encodeZone) \<and> byte_of c < 0x80 \<and>
              shouldEscape c encodeHost
        then Inl (InvalidHostError [c])
      else (case unescape cs mode of Inl e \<Rightarrow> Inl e | Inr t \<Rightarrow> Inr (c # t)))"

definition QueryEscape :: "string \<Rightarrow> string" where
  "QueryEscape s = escape s encodeQueryComponent"

definition QueryUnescape :: "string \<Rightarrow> url_error + string" where
  "QueryUnescape s = unescape s encodeQueryComponent"

subsection \<open>Query parameters\<close>

text \<open>
  \<^verbatim>\<open>type Values map[string][]string\<close>. The map is an association list whose keys are
  distinct; \<^verbatim>\<open>len(v)\<close> is its number of keys and \<^verbatim>\<open>v[k]\<close> is \<open>values_of v k\<close>, empty for a
  key that is absent.
\<close>

type_synonym Values = "(string \<times> string list) list"

definition values_of :: "Values \<Rightarrow> string \<Rightarrow> string list" where
  "values_of v k = (case map_of v k of None \<Rightarrow> [] | Some vs \<Rightarrow> vs)"

text \<open>
  \<^verbatim>\<open>func (v Values) Encode() string\<close>: the keys are sorted; every value of every key is
  written as \<open>key=value\<close>, both escaped, with \<open>&\<close> before each but the first.
\<close>

fun Encode_values :: "string \<Rightarrow> string \<Rightarrow> string list \<Rightarrow> string" where
  "Encode_values buf keyEscaped [] = buf"
| "Encode_values buf keyEscaped (v # vs) =
     Encode_values
       ((if 0 < length buf then buf @ ''&'' else buf) @ keyEscaped @ ''='' @ QueryEscape v)
       keyEscaped vs"

fun Encode_keys :: "Values \<Rightarrow> string \<Rightarrow> string list \<Rightarrow> string" where
  "Encode_keys v buf [] = buf"
| "Encode_keys v buf (k # keys) =
     Encode_keys v (Encode_values buf (QueryEscape k) (values_of v k)) keys"

definition Encode :: "Values \<Rightarrow> string" where
  "Encode v = (if length v = 0 then [] else Encode_keys v [] (sort (map fst v)))"

text \<open>\<^verbatim>\<open>m[key] = append(m[key], value)\<close>\<close>

fun add_value :: "Values \<Rightarrow> string \<Rightarrow> string \<Rightarrow> Values" where
  "add_value [] key v = [(key, [v])]"
| "add_value ((k, vs) # m) key v =
     (if k = key then (k, vs @ [v]) # m else (k, vs) # add_value m key v)"

lemma Cut_after_le: "length (fst (snd (Cut s sep))) \<le> length s"
  by (induction s) (auto split: prod.splits)

lemma Cut_after_shorter: "(before, after, found) = Cut s sep \<Longrightarrow> s \<noteq> [] \<Longrightarrow> length after < length s"
  using Cut_after_le [of "tl s" sep] by (cases s) (auto split: prod.splits if_splits)

text \<open>
  \<^verbatim>\<open>parseQuery(m, query)\<close>: the loop over the pieces between \<open>&\<close>. A piece with a semicolon
  sets the error and is skipped, an empty piece is skipped, a piece whose key or value
  does not unescape is skipped and its error kept if it is the first.
\<close>

function parseQuery :: "Values \<Rightarrow> url_error option \<Rightarrow> string \<Rightarrow> Values \<times> url_error option" where
  "parseQuery m err query =
     (if query = [] then (m, err)
      else
        case Cut query (CHR ''&'') of (key, query', _) \<Rightarrow>
          if Contains key (CHR '';'') then parseQuery m (Some InvalidSemicolon) query'
          else if key = [] then parseQuery m err query'
          else
            case Cut key (CHR ''='') of (key, val, _) \<Rightarrow>
              (case QueryUnescape key of
                 Inl err1 \<Rightarrow> parseQuery m (if err = None then Some err1 else err) query'
               | Inr key \<Rightarrow>
                   (case QueryUnescape val of
                      Inl err1 \<Rightarrow> parseQuery m (if err = None then Some err1 else err) query'
                    | Inr val \<Rightarrow> parseQuery (add_value m key val) err query')))"
  by pat_completeness auto
termination
proof (relation "measure (\<lambda>(m, err, query). length query)")
  show "wf (measure (\<lambda>(m :: Values, err :: url_error option, query :: string). length query))"
    by simp
qed (auto dest: Cut_after_shorter)

declare parseQuery.simps [simp del]

definition ParseQuery :: "string \<Rightarrow> Values \<times> url_error option" where
  "ParseQuery query = parseQuery [] None query"

subsection \<open>The URL structure\<close>

text \<open>\<^verbatim>\<open>type Userinfo struct\<close> and \<^verbatim>\<open>type URL struct\<close>; the pointer \<^verbatim>\<open>User *Userinfo\<close> is an option.\<close>

record Userinfo =
  username :: string
  password :: string
  passwordSet :: bool

record URL =
  Scheme :: string
  Opaque :: string
  User :: "Userinfo option"
  Host :: string
  Path :: string
  RawPath :: string
  OmitHost :: bool
  ForceQuery :: bool
  RawQuery :: string
  Fragment :: string
  RawFragment :: string

definition empty_URL :: URL where
  "empty_URL =
     \<lparr>Scheme = [], Opaque = [], User = None, Host = [], Path = [], RawPath = [],
      OmitHost = False, ForceQuery = False, RawQuery = [], Fragment = [], RawFragment = []\<rparr>"

subsection \<open>Parsing\<close>

text \<open>
  \<^verbatim>\<open>getScheme(rawURL)\<close>: the loop over the bytes, \<open>pre\<close> being the bytes already passed
  (\<open>i = 0\<close> is \<open>pre = []\<close>).
\<close>

fun getScheme_loop :: "string \<Rightarrow> string \<Rightarrow> string \<Rightarrow> url_error + string \<times> string" where
  "getScheme_loop rawURL pre [] = Inr ([], rawURL)"
| "getScheme_loop rawURL pre (c # cs) =
     (if (CHR ''a'' \<le> c \<and> c \<le> CHR ''z'') \<or> (CHR ''A'' \<le> c \<and> c \<le> CHR ''Z'')
        then getScheme_loop rawURL (pre @ [c]) cs
      else if (CHR ''0'' \<le> c \<and> c \<le> CHR ''9'') \<or> c = CHR ''+'' \<or> c = CHR ''-'' \<or> c = CHR ''.''
        then (if pre = [] then Inr ([], rawURL) else getScheme_loop rawURL (pre @ [c]) cs)
      else if c = CHR '':''
        then (if pre = [] then Inl MissingProtocolScheme else Inr (pre, cs))
      else Inr ([], rawURL))"

definition getScheme :: "string \<Rightarrow> url_error + string \<times> string" where
  "getScheme rawURL = getScheme_loop rawURL [] rawURL"

definition stringContainsCTLByte :: "string \<Rightarrow> bool" where
  "stringContainsCTLByte s \<longleftrightarrow> (\<exists>b \<in> set s. byte_of b < 0x20 \<or> byte_of b = 0x7F)"

definition validOptionalPort :: "string \<Rightarrow> bool" where
  "validOptionalPort port \<longleftrightarrow>
     (case port of
        [] \<Rightarrow> True
      | c # ds \<Rightarrow> c = CHR '':'' \<and> list_all (\<lambda>b. CHR ''0'' \<le> b \<and> b \<le> CHR ''9'') ds)"

text \<open>
  \<^verbatim>\<open>validUserinfo(s)\<close>. The Go loop ranges over runes and accepts only the ASCII ones
  listed, so every byte must be one of them.
\<close>

definition validUserinfo :: "string \<Rightarrow> bool" where
  "validUserinfo s \<longleftrightarrow>
     list_all (\<lambda>r. (CHR ''A'' \<le> r \<and> r \<le> CHR ''Z'') \<or> (CHR ''a'' \<le> r \<and> r \<le> CHR ''z'') \<or>
                   (CHR ''0'' \<le> r \<and> r \<le> CHR ''9'') \<or>
                   r \<in> set (''-._:~!$&'' @ [CHR 0x27] @ ''()*+,;=%@'')) s"

text \<open>
  \<^verbatim>\<open>parseHost(host)\<close>, as it stands in Go 1.22: a host in brackets is taken as it is
  written, and outside brackets only what follows the last colon must be a port. Later
  releases of Go refuse more hosts: one in brackets that is not an IPv6 address, and one
  outside brackets with a colon before the one of the port. What the examples below
  put in the place of the host, \<open>v6.db.transport.rest\<close>, \<open>127.0.0.1:8080\<close>, the unclosed
  \<open>[::1\<close> and nothing, is read alike by both.
\<close>

definition parseHost :: "string \<Rightarrow> url_error + string" where
  "parseHost host =
     (if HasPrefix host ''['' then
        (let i = LastIndexByte host (CHR '']'') in
         if i < 0 then Inl MissingBracket
         else
           let colonPort = drop (nat (i + 1)) host in
           if \<not> validOptionalPort colonPort then Inl (InvalidPort colonPort)
           else
             let zone = Index (take (nat i) host) ''%25'' in
             if 0 \<le> zone then
               (case unescape (take (nat zone) host) encodeHost of
                  Inl e \<Rightarrow> Inl e
                | Inr host1 \<Rightarrow>
                    (case unescape (take (nat i - nat zone) (drop (nat zone) host)) encodeZone of
                       Inl e \<Rightarrow> Inl e
                     | Inr host2 \<Rightarrow>
                         (case unescape (drop (nat i) host) encodeHost of
                            Inl e \<Rightarrow> Inl e
                          | Inr host3 \<Rightarrow> Inr (host1 @ host2 @ host3))))
             else unescape host encodeHost)
      else
        (let i = LastIndexByte host (CHR '':'') in
         if i \<noteq> - 1 \<and> \<not> validOptionalPort (drop (nat i) host)
         then Inl (InvalidPort (drop (nat i) host))
         else unescape host encodeHost))"

definition parseAuthority :: "string \<Rightarrow> url_error + Userinfo option \<times> string" where
  "parseAuthority authority =
     (let i = LastIndexByte authority (CHR ''@'') in
      case (if i < 0 then parseHost authority else parseHost (drop (nat (i + 1)) authority)) of
        Inl e \<Rightarrow> Inl e
      | Inr host \<Rightarrow>
          if i < 0 then Inr (None, host)
          else
            let userinfo = take (nat i) authority in
            if \<not> validUserinfo userinfo then Inl InvalidUserinfo
            else if \<not> Contains userinfo (CHR '':'') then
              (case unescape userinfo encodeUserPassword of
                 Inl e \<Rightarrow> Inl e
               | Inr name \<Rightarrow>
                   Inr (Some \<lparr>username = name, password = [], passwordSet = False\<rparr>, host))
            else
              (case Cut userinfo (CHR '':'') of (name, pass, _) \<Rightarrow>
                 (case unescape name encodeUserPassword of
                    Inl e \<Rightarrow> Inl e
                  | Inr name \<Rightarrow>
                      (case unescape pass encodeUserPassword of
                         Inl e \<Rightarrow> Inl e
                       | Inr pass \<Rightarrow>
                           Inr (Some \<lparr>username = name, password = pass, passwordSet = True\<rparr>,
                                host)))))"

text \<open>\<^verbatim>\<open>func (u *URL) setPath(p string) error\<close> and \<^verbatim>\<open>setFragment\<close>.\<close>

definition setPath :: "URL \<Rightarrow> string \<Rightarrow> url_error + URL" where
  "setPath u p =
     (case unescape p encodePath of
        Inl e \<Rightarrow> Inl e
      | Inr path \<Rightarrow>
          Inr (u\<lparr>Path := path, RawPath := (if p = escape path encodePath then [] else p)\<rparr>))"

definition setFragment :: "URL \<Rightarrow> string \<Rightarrow> url_error + URL" where
  "setFragment u f =
     (case unescape f encodeFragment of
        Inl e \<Rightarrow> Inl e
      | Inr frag \<Rightarrow>
          Inr (u\<lparr>Fragment := frag,
                 RawFragment := (if f = escape frag encodeFragment then [] else f)\<rparr>))"

text \<open>
  \<^verbatim>\<open>parse(rawURL, viaRequest)\<close>, the URL without its fragment, in two halves. The first
  splits off the scheme and the query. The second, \<open>parse_rest\<close>, works on what lies
  between them: a scheme followed by a path that does not begin with a slash gives an
  opaque URL, whose rest is kept in \<open>Opaque\<close> and whose path is not set; otherwise an
  authority is parsed when the rest begins with two slashes, and the path is set.
\<close>

definition parse_rest :: "URL \<Rightarrow> string \<Rightarrow> bool \<Rightarrow> url_error + URL" where
  "parse_rest url rest viaRequest =
     (if \<not> HasPrefix rest ''/'' \<and> Scheme url \<noteq> [] then Inr (url\<lparr>Opaque := rest\<rparr>)
      else if \<not> HasPrefix rest ''/'' \<and> viaRequest then Inl InvalidURIForRequest
      else if \<not> HasPrefix rest ''/'' \<and> Contains (fst (Cut rest (CHR ''/''))) (CHR '':'')
        then Inl FirstPathSegmentColon
      else if (Scheme url \<noteq> [] \<or> \<not> viaRequest \<and> \<not> HasPrefix rest ''///'') \<and>
              HasPrefix rest ''//'' then
        (let authority = takeWhile (\<lambda>c. c \<noteq> CHR ''/'') (drop 2 rest);
             rest = dropWhile (\<lambda>c. c \<noteq> CHR ''/'') (drop 2 rest)
         in case parseAuthority authority of
              Inl e \<Rightarrow> Inl e
            | Inr (user, host) \<Rightarrow> setPath (url\<lparr>User := user, Host := host\<rparr>) rest)
      else if Scheme url \<noteq> [] \<and> HasPrefix rest ''/''
        then setPath (url\<lparr>OmitHost := True\<rparr>) rest
      else setPath url rest)"

definition parse :: "string \<Rightarrow> bool \<Rightarrow> url_error + URL" where
  "parse rawURL viaRequest =
     (if stringContainsCTLByte rawURL then Inl InvalidControlCharacter
      else if rawURL = [] \<and> viaRequest then Inl EmptyURL
      else if rawURL = ''*'' then Inr (empty_URL\<lparr>Path := ''*''\<rparr>)
      else
        case getScheme rawURL of
          Inl e \<Rightarrow> Inl e
        | Inr (scheme, rest) \<Rightarrow>
            if HasSuffix rest ''?'' \<and> Count rest (CHR ''?'') = 1
            then parse_rest (empty_URL\<lparr>Scheme := ToLower scheme, ForceQuery := True\<rparr>)
                   (butlast rest) viaRequest
            else parse_rest
                   (empty_URL\<lparr>Scheme := ToLower scheme,
                              RawQuery := fst (snd (Cut rest (CHR ''?'')))\<rparr>)
                   (fst (Cut rest (CHR ''?''))) viaRequest)"

text \<open>\<^verbatim>\<open>func Parse(rawURL string) (*URL, error)\<close>: the fragment is cut off and set last.\<close>

definition Parse :: "string \<Rightarrow> url_error + URL" where
  "Parse rawURL =
     (case Cut rawURL (CHR ''#'') of (u, frag, _) \<Rightarrow>
        (case parse u False of
           Inl e \<Rightarrow> Inl e
         | Inr url \<Rightarrow> if frag = [] then Inr url else setFragment url frag))"

subsection \<open>Printing\<close>

text \<open>\<^verbatim>\<open>validEncoded(s, mode)\<close>\<close>

definition validEncoded :: "string \<Rightarrow> encoding \<Rightarrow> bool" where
  "validEncoded s mode \<longleftrightarrow>
     list_all (\<lambda>c. c \<in> set (''!$&'' @ [CHR 0x27] @ ''()*+,;=:@[]%'') \<or> \<not> shouldEscape c mode) s"

text \<open>\<^verbatim>\<open>func (u *URL) EscapedPath() string\<close> and \<^verbatim>\<open>EscapedFragment\<close>\<close>

definition EscapedPath :: "URL \<Rightarrow> string" where
  "EscapedPath u =
     (if RawPath u \<noteq> [] \<and> validEncoded (RawPath u) encodePath \<and>
         unescape (RawPath u) encodePath = Inr (Path u)
      then RawPath u
      else if Path u = ''*'' then ''*''
      else escape (Path u) encodePath)"

definition EscapedFragment :: "URL \<Rightarrow> string" where
  "EscapedFragment u =
     (if RawFragment u \<noteq> [] \<and> validEncoded (RawFragment u) encodeFragment \<and>
         unescape (RawFragment u) encodeFragment = Inr (Fragment u)
      then RawFragment u
      else escape (Fragment u) encodeFragment)"

text \<open>\<^verbatim>\<open>func (u *Userinfo) String() string\<close>\<close>

definition Userinfo_String :: "Userinfo \<Rightarrow> string" where
  "Userinfo_String u =
     escape (username u) encodeUserPassword @
     (if passwordSet u then '':'' @ escape (password u) encodeUserPassword else [])"

text \<open>
  \<^verbatim>\<open>func (u *URL) String() string\<close>, in the three parts the function writes one after the
  other: the scheme with the opaque text or with authority and path; the query, written
  when \<open>ForceQuery\<close> is set or \<open>RawQuery\<close> is not empty; the fragment.
\<close>

definition String_authority :: "URL \<Rightarrow> string" where
  "String_authority u =
     (if Scheme u \<noteq> [] \<or> Host u \<noteq> [] \<or> User u \<noteq> None then
        (if OmitHost u \<and> Host u = [] \<and> User u = None then []
         else
           (if Host u \<noteq> [] \<or> Path u \<noteq> [] \<or> User u \<noteq> None then ''//'' else []) @
           (case User u of None \<Rightarrow> [] | Some ui \<Rightarrow> Userinfo_String ui @ ''@'') @
           (if Host u \<noteq> [] then escape (Host u) encodeHost else []))
      else [])"

definition String_hier :: "URL \<Rightarrow> string" where
  "String_hier u =
     (let buf = (if Scheme u \<noteq> [] then Scheme u @ '':'' else []) in
      if Opaque u \<noteq> [] then buf @ Opaque u
      else
        let buf = buf @ String_authority u;
            path = EscapedPath u;
            buf = (if path \<noteq> [] \<and> hd path \<noteq> CHR ''/'' \<and> Host u \<noteq> [] then buf @ ''/'' else buf);
            buf = (if buf = [] \<and> Contains (fst (Cut path (CHR ''/''))) (CHR '':'')
                   then buf @ ''./'' else buf)
        in buf @ path)"

definition String_query :: "URL \<Rightarrow> string" where
  "String_query u = (if ForceQuery u \<or> RawQuery u \<noteq> [] then ''?'' @ RawQuery u else [])"

definition String_fragment :: "URL \<Rightarrow> string" where
  "String_fragment u = (if Fragment u \<noteq> [] then ''#'' @ EscapedFragment u else [])"

definition URL_String :: "URL \<Rightarrow> string" where
  "URL_String u = String_hier u @ String_query u @ String_fragment u"

subsection \<open>Package net/http: reason phrases\<close>

text \<open>\<^verbatim>\<open>http.StatusText\<close>: the reason phrase of a status code, empty for an unknown code.\<close>

definition status_table :: "(int \<times> string) list" where
  "status_table =
     [(100, ''Continue''), (101, ''Switching Protocols''), (102, ''Processing''),
      (103, ''Early Hints''),
      (200, ''OK''), (201, ''Created''), (202, ''Accepted''),
      (203, ''Non-Authoritative Information''), (204, ''No Content''),
      (205, ''Reset Content''), (206, ''Partial Content''), (207, ''Multi-Status''),
      (208, ''Already Reported''), (226, ''IM Used''),
      (300, ''Multiple Choices''), (301, ''Moved Permanently''), (302, ''Found''),
      (303, ''See Other''), (304, ''Not Modified''), (305, ''Use Proxy''),
      (307, ''Temporary Redirect''), (308, ''Permanent Redirect''),
      (400, ''Bad Request''), (401, ''Unauthorized''), (402, ''Payment Required''),
      (403, ''Forbidden''), (404, ''Not Found''), (405, ''Method Not Allowed''),
      (406, ''Not Acceptable''), (407, ''Proxy Authentication Required''),
      (408, ''Request Timeout''), (409, ''Conflict''), (410, ''Gone''),
      (411, ''Length Required''), (412, ''Precondition Failed''),
      (413, ''Request Entity Too Large''), (414, ''Request URI Too Long''),
      (415, ''Unsupported Media Type''), (416, ''Requested Range Not Satisfiable''),
      (417, ''Expectation Failed''), (418, ''I'' @ [CHR 0x27] @ ''m a teapot''),
      (421, ''Misdirected Request''), (422, ''Unprocessable Entity''), (423, ''Locked''),
      (424, ''Failed Dependency''), (425, ''Too Early''), (426, ''Upgrade Required''),
      (428, ''Precondition Required''), (429, ''Too Many Requests''),
      (431, ''Request Header Fields Too Large''),
      (451, ''Unavailable For Legal Reasons''),
      (500, ''Internal Server Error''), (501, ''Not Implemented''), (502, ''Bad Gateway''),
      (503, ''Service Unavailable''), (504, ''Gateway Timeout''),
      (505, ''HTTP Version Not Supported''), (506, ''Variant Also Negotiates''),
      (507, ''Insufficient Storage''), (508, ''Loop Detected''), (510, ''Not Extended''),
      (511, ''Network Authentication Required'')]"

definition StatusText :: "int \<Rightarrow> string" where
  "StatusText code = (case map_of status_table code of Some t \<Rightarrow> t | None \<Rightarrow> [])"

section \<open>Package api: the client\<close>

text \<open>\<^verbatim>\<open>type HTTPError struct { Status int; Body []byte }\<close>\<close>

record HTTPError =
  Status :: int
  Body :: string

text \<open>
  \<^verbatim>\<open>summarize(msg, max)\<close>. The bound is a \<^typ>\<open>nat\<close>: the one call passes the constant 200.
  \<^verbatim>\<open>len\<close> counts bytes and \<^verbatim>\<open>msg[:max]\<close> keeps the first \<open>maxlen\<close> bytes.
\<close>

definition summarize :: "string \<Rightarrow> nat \<Rightarrow> string" where
  "summarize msg maxlen = (if length msg \<le> maxlen then msg else take maxlen msg @ ''...'')"

text \<open>\<^verbatim>\<open>func (e HTTPError) Error() string\<close>\<close>

definition HTTPError_Error :: "HTTPError \<Rightarrow> string" where
  "HTTPError_Error e =
     (let msg = TrimSpace (Body e);
          msg = (if msg = [] then StatusText (Status e) else msg);
          msg = summarize msg 200
      in ''request failed: '' @ fmt_d (Status e) @ '' '' @ msg)"

text \<open>
  The errors of the package. \<open>BaseURLRequired\<close> and \<open>ParseBaseURL\<close> are what \<^verbatim>\<open>NewClient\<close>
  returns (the spec's Configuration Error); \<open>RequestFailed\<close> and \<open>ReadResponse\<close> wrap the
  transport's own error, kept as its text (the spec's Network Error); \<open>Failure\<close> is an
  \<^verbatim>\<open>HTTPError\<close> returned as the error (the spec's Transport Failure).
\<close>

datatype api_error =
    BaseURLRequired
  | ParseBaseURL url_error
  | ClientNotConfigured
  | BaseURLNil
  | CreateRequest url_error
  | RequestFailed string
  | ReadResponse string
  | Failure HTTPError

text \<open>
  \<^verbatim>\<open>type Config struct\<close>, and \<^verbatim>\<open>type Client struct\<close> with the timeout of its \<^verbatim>\<open>http.Client\<close>.
  A \<^verbatim>\<open>time.Duration\<close> counts nanoseconds.
\<close>

record Config =
  BaseURL :: string
  Timeout :: int
  UserAgent :: string

record Client =
  baseURL :: "URL option"
  http_Timeout :: int
  userAgent :: string

definition Second :: int where
  "Second = 1000000000"

text \<open>\<^verbatim>\<open>func NewClient(cfg Config) (*Client, error)\<close>\<close>

definition NewClient :: "Config \<Rightarrow> api_error + Client" where
  "NewClient cfg =
     (if TrimSpace (BaseURL cfg) = [] then Inl BaseURLRequired
      else
        case Parse (BaseURL cfg) of
          Inl err \<Rightarrow> Inl (ParseBaseURL err)
        | Inr base \<Rightarrow>
            Inr \<lparr>baseURL = Some base,
                 http_Timeout = (if Timeout cfg \<le> 0 then 10 * Second else Timeout cfg),
                 userAgent = UserAgent cfg\<rparr>)"

text \<open>
  \<^verbatim>\<open>buildURL(base, path, params)\<close>. \<open>resolved\<close> is the local variable of that name when the
  function returns: a copy of the base with its path and its query replaced.
\<close>

definition resolved :: "URL \<Rightarrow> string \<Rightarrow> Values \<Rightarrow> URL" where
  "resolved base path params =
     (let cleanPath = TrimLeft path (CHR ''/'');
          basePath = TrimRight (Path base) (CHR ''/'');
          mergedPath = (if basePath \<noteq> [] then basePath @ ''/'' @ cleanPath else ''/'' @ cleanPath)
      in base\<lparr>Path := mergedPath,
              RawQuery := (if 0 < length params then Encode params else [])\<rparr>)"

definition buildURL :: "URL option \<Rightarrow> string \<Rightarrow> Values \<Rightarrow> api_error + string" where
  "buildURL base path params =
     (case base of
        None \<Rightarrow> Inl BaseURLNil
      | Some b \<Rightarrow> Inr (URL_String (resolved b path params)))"

text \<open>\<^verbatim>\<open>func (c *Client) URL(path string, params url.Values) (string, error)\<close>\<close>

definition Client_URL :: "Client \<Rightarrow> string \<Rightarrow> Values \<Rightarrow> api_error + string" where
  "Client_URL c path params = buildURL (baseURL c) path params"

text \<open>
  The request that \<^verbatim>\<open>Get\<close> hands to the transport and the response it gets back. The
  response body is what \<^verbatim>\<open>io.ReadAll\<close> makes of it: the bytes, or a read error.
\<close>

record Request =
  Method :: string
  RequestURL :: URL
  Header :: "(string \<times> string) list"

record Response =
  StatusCode :: int
  ReadAll :: "string + string"

text \<open>
  \<^verbatim>\<open>http.NewRequestWithContext(ctx, "GET", urlStr, nil)\<close> with a context that is not nil:
  it fails when the URL does not parse, and drops an empty port from the host.
\<close>

definition removeEmptyPort :: "string \<Rightarrow> string" where
  "removeEmptyPort host =
     (if LastIndexByte host (CHR '':'') > LastIndexByte host (CHR '']'') \<and> HasSuffix host '':''
      then butlast host else host)"

definition NewRequest :: "string \<Rightarrow> url_error + Request" where
  "NewRequest urlStr =
     (case Parse urlStr of
        Inl err \<Rightarrow> Inl err
      | Inr u \<Rightarrow> Inr \<lparr>Method = ''GET'', RequestURL = u\<lparr>Host := removeEmptyPort (Host u)\<rparr>,
                       Header = []\<rparr>)"

text \<open>
  \<^verbatim>\<open>func (c *Client) Get(ctx, path, params) ([]byte, error)\<close>. The network is the
  parameter \<open>do\<close>, standing for \<^verbatim>\<open>c.http.Do\<close>: it answers a request with a response or
  with an error of its own. The receiver is an option since the Go code tests it for \<^verbatim>\<open>nil\<close>.
\<close>

definition Get ::
  "(Request \<Rightarrow> string + Response) \<Rightarrow> Client option \<Rightarrow> string \<Rightarrow> Values \<Rightarrow> api_error + string"
where
  "Get do c path params =
     (case c of
        None \<Rightarrow> Inl ClientNotConfigured
      | Some cl \<Rightarrow>
          (if baseURL cl = None then Inl ClientNotConfigured
           else
             (case buildURL (baseURL cl) path params of
                Inl err \<Rightarrow> Inl err
              | Inr urlStr \<Rightarrow>
                  (case NewRequest urlStr of
                     Inl err \<Rightarrow> Inl (CreateRequest err)
                   | Inr req \<Rightarrow>
                       (let req = req\<lparr>Header := [(''Accept'', ''application/json'')]\<rparr>;
                            req = (if userAgent cl \<noteq> []
                                   then req\<lparr>Header := Header req @ [(''User-Agent'', userAgent cl)]\<rparr>
                                   else req)
                        in
                          (case do req of
                             Inl err \<Rightarrow> Inl (RequestFailed err)
                           | Inr resp \<Rightarrow>
                               (case ReadAll resp of
                                  Inl err \<Rightarrow> Inl (ReadResponse err)
                                | Inr body \<Rightarrow>
                                    if StatusCode resp < 200 \<or> 300 \<le> StatusCode resp
                                    then Inl (Failure \<lparr>Status = StatusCode resp, Body = body\<rparr>)
                                    else Inr body)))))))"

section \<open>Package strconv and the verb \<^verbatim>\<open>%.6f\<close>\<close>

text \<open>
  A finite \<^verbatim>\<open>float64\<close> is a sign, a mantissa below \<open>2^53\<close> and a binary exponent from
  \<open>-1074\<close> to \<open>971\<close>: the number \<open>mant * 2^expo\<close>, negated when \<open>neg\<close> is set. Infinities
  and NaN do not arise: the only source of a \<^verbatim>\<open>float64\<close> is a JSON number, and a number
  too large is an error.
\<close>

record float64 =
  neg :: bool
  mant :: int
  expo :: int

text \<open>\<^verbatim>\<open>bits.Len\<close>: the number of bits of a number that is not negative.\<close>

function bit_length :: "int \<Rightarrow> int" where
  "bit_length n = (if n \<le> 0 then 0 else 1 + bit_length (n div 2))"
  by pat_completeness auto
termination
  by (relation "measure nat") auto

declare bit_length.simps [simp del]

text \<open>The quotient \<open>n / d\<close> rounded to the nearest integer, a tie to the even one.\<close>

definition round_half_even :: "int \<Rightarrow> int \<Rightarrow> int" where
  "round_half_even n d =
     (let q = n div d; r = n mod d
      in if d < 2 * r \<or> (2 * r = d \<and> odd q) then q + 1 else q)"

definition is_digit :: "char \<Rightarrow> bool" where
  "is_digit c \<longleftrightarrow> CHR ''0'' \<le> c \<and> c \<le> CHR ''9''"

definition digits_value :: "string \<Rightarrow> int" where
  "digits_value ds = foldl (\<lambda>n c. 10 * n + (int (byte_of c) - 48)) 0 ds"

text \<open>
  The parts of a JSON number literal: whether it begins with \<open>-\<close>, the digits before
  the point, the digits after it, and the exponent.
\<close>

definition number_parts :: "string \<Rightarrow> bool \<times> string \<times> string \<times> int" where
  "number_parts lit =
     (let ng = HasPrefix lit ''-'';
          s = (if ng then drop 1 lit else lit);
          ip = takeWhile is_digit s;
          s = dropWhile is_digit s;
          fp = (if HasPrefix s ''.'' then takeWhile is_digit (drop 1 s) else []);
          s = (if HasPrefix s ''.'' then dropWhile is_digit (drop 1 s) else s);
          ex = (if s = [] then 0
                else if HasPrefix (drop 1 s) ''-'' then - digits_value (drop 2 s)
                else if HasPrefix (drop 1 s) ''+'' then digits_value (drop 2 s)
                else digits_value (drop 1 s))
      in (ng, ip, fp, ex))"

text \<open>
  \<^verbatim>\<open>strconv.ParseFloat(lit, 64)\<close> on a JSON number literal: the decimal number rounded to
  the nearest \<^verbatim>\<open>float64\<close>, a tie to the even mantissa; \<open>None\<close> is the range error for a
  number that rounds to an infinity. A number too small rounds to zero without error.
\<close>

definition ParseFloat :: "string \<Rightarrow> float64 option" where
  "ParseFloat lit =
     (case number_parts lit of (ng, ip, fp, ex) \<Rightarrow>
        let D = digits_value (ip @ fp);
            E = ex - int (length fp)
        in
        if D = 0 then Some \<lparr>neg = ng, mant = 0, expo = 0\<rparr>
        else
          let num = (if 0 \<le> E then D * 10 ^ nat E else D);
              den = (if 0 \<le> E then 1 else 10 ^ nat (- E));
              k = bit_length num - bit_length den;
              b = (if (0 \<le> k \<and> den * 2 ^ nat k \<le> num) \<or> (k < 0 \<and> den \<le> num * 2 ^ nat (- k))
                   then k else k - 1);
              e = max (b - 52) (- 1074);
              q = (if 0 \<le> e then round_half_even num (den * 2 ^ nat e)
                   else round_half_even (num * 2 ^ nat (- e)) den);
              e = (if q = 2 ^ 53 then e + 1 else e);
              q = (if q = 2 ^ 53 then 2 ^ 52 else q)
          in if 971 < e then None else Some \<lparr>neg = ng, mant = q, expo = e\<rparr>)"

text \<open>
  \<^verbatim>\<open>fmt.Sprintf("%.6f", f)\<close>: the exact value rounded to six decimals, a tie to the even
  digit, with the sign of the \<^verbatim>\<open>float64\<close>. The digits of a number that is not negative
  are computed on \<open>int\<close>, where large numbers evaluate fast.
\<close>

function dec_int :: "int \<Rightarrow> string" where
  "dec_int n =
     (if n < 10 then [digit_char (nat n)] else dec_int (n div 10) @ [digit_char (nat (n mod 10))])"
  by pat_completeness auto
termination
  by (relation "measure nat") auto

declare dec_int.simps [simp del]

definition fmt_6f :: "float64 \<Rightarrow> string" where
  "fmt_6f f =
     (let n = (if 0 \<le> expo f then mant f * 2 ^ nat (expo f) * 1000000
               else round_half_even (mant f * 1000000) (2 ^ nat (- expo f)));
          frac = dec_int (n mod 1000000)
      in (if neg f then ''-'' else []) @ dec_int (n div 1000000) @ ''.'' @
         replicate (6 - length frac) (CHR ''0'') @ frac)"

text \<open>
  \<^verbatim>\<open>strconv.ParseInt(lit, 10, 64)\<close> on a JSON number literal: an optional \<open>-\<close> and digits
  only, within the range of an \<^verbatim>\<open>int64\<close>.
\<close>

definition ParseInt :: "string \<Rightarrow> int option" where
  "ParseInt lit =
     (let ng = HasPrefix lit ''-'';
          ds = (if ng then drop 1 lit else lit);
          n = digits_value ds
      in if ds = [] \<or> \<not> list_all is_digit ds then None
         else if ng then (if n \<le> 2 ^ 63 then Some (- n) else None)
         else (if n < 2 ^ 63 then Some n else None))"

section \<open>Package encoding/json\<close>

text \<open>
  \<^verbatim>\<open>json.Unmarshal(data, &v)\<close> first checks that \<open>data\<close> is one well-formed JSON text and
  fails with a syntax error when it is not; then it walks the text and stores what it
  finds into \<open>v\<close>. The first half is modelled by a parser from bytes to JSON values, the
  second by decoders from JSON values to the Go types of package format.
\<close>

subsection \<open>JSON values and their syntax\<close>

text \<open>
  A number keeps its literal: how it converts depends on the type it is stored into.
  An object keeps its members in the order of the text, duplicates included.
\<close>

datatype json =
    JNull
  | JBool bool
  | JNumber string
  | JString string
  | JArray "json list"
  | JObject "(string \<times> json) list"

text \<open>\<^verbatim>\<open>utf8.EncodeRune\<close>: a surrogate or a rune beyond \<open>0x10FFFF\<close> is written as \<open>RuneError\<close>.\<close>

definition EncodeRune :: "nat \<Rightarrow> string" where
  "EncodeRune r =
     (let r = (if (0xD800 \<le> r \<and> r \<le> 0xDFFF) \<or> 0x10FFFF < r then RuneError else r) in
      if r < 0x80 then [char_of r]
      else if r < 0x800 then [char_of (0xC0 + r div 64), char_of (0x80 + r mod 64)]
      else if r < 0x10000 then
        [char_of (0xE0 + r div 4096), char_of (0x80 + r div 64 mod 64), char_of (0x80 + r mod 64)]
      else
        [char_of (0xF0 + r div 262144), char_of (0x80 + r div 4096 mod 64),
         char_of (0x80 + r div 64 mod 64), char_of (0x80 + r mod 64)])"

text \<open>The white space of JSON: space, tab, carriage return, line feed.\<close>

definition isSpace :: "char \<Rightarrow> bool" where
  "isSpace c \<longleftrightarrow> byte_of c \<in> {0x20, 0x09, 0x0D, 0x0A}"

definition skip_space :: "string \<Rightarrow> string" where
  "skip_space s = dropWhile isSpace s"

text \<open>
  The scanner inside a string literal, entered after the opening quote: the raw text up
  to the closing quote and what follows it. A control byte, an unknown escape and a
  literal that does not end are syntax errors.
\<close>

fun scan_string :: "string \<Rightarrow> (string \<times> string) option" where
  "scan_string [] = None"
| "scan_string (c # cs) =
     (if c = CHR 0x22 then Some ([], cs)
      else if c = CHR 0x5C then
        (case cs of
           [] \<Rightarrow> None
         | e # es \<Rightarrow>
             if e \<in> set (''bfnrt/'' @ [CHR 0x5C, CHR 0x22]) then
               (case scan_string es of
                  None \<Rightarrow> None
                | Some (raw, rest) \<Rightarrow> Some (c # e # raw, rest))
             else if e = CHR ''u'' then
               (case es of
                  h1 # h2 # h3 # h4 # es' \<Rightarrow>
                    if ishex h1 \<and> ishex h2 \<and> ishex h3 \<and> ishex h4 then
                      (case scan_string es' of
                         None \<Rightarrow> None
                       | Some (raw, rest) \<Rightarrow> Some (c # e # h1 # h2 # h3 # h4 # raw, rest))
                    else None
                | _ \<Rightarrow> None)
             else None)
      else if byte_of c < 0x20 then None
      else
        (case scan_string cs of
           None \<Rightarrow> None
         | Some (raw, rest) \<Rightarrow> Some (c # raw, rest)))"

text \<open>\<^verbatim>\<open>getu4\<close>: the code unit of an escape \<open>\uXXXX\<close> at the start of the text.\<close>

definition getu4 :: "string \<Rightarrow> nat option" where
  "getu4 s =
     (case s of
        b # u # h1 # h2 # h3 # h4 # _ \<Rightarrow>
          if b = CHR 0x5C \<and> u = CHR ''u'' \<and> ishex h1 \<and> ishex h2 \<and> ishex h3 \<and> ishex h4
          then Some (((unhex h1 * 16 + unhex h2) * 16 + unhex h3) * 16 + unhex h4)
          else None
      | _ \<Rightarrow> None)"

text \<open>
  \<^verbatim>\<open>unquoteBytes\<close> on the raw text between the quotes: escapes are replaced, a pair of
  surrogate escapes becomes one rune, a lone surrogate and every byte that is not
  well-formed UTF-8 become \<open>RuneError\<close>.
\<close>

function unquote :: "string \<Rightarrow> string option" where
  "unquote s =
     (case s of
        [] \<Rightarrow> Some []
      | c # cs \<Rightarrow>
          if c = CHR 0x5C then
            (case cs of
               [] \<Rightarrow> None
             | e # es \<Rightarrow>
                 if e \<in> set ([CHR 0x22, CHR 0x5C, CHR 0x27] @ ''/'') then map_option ((#) e) (unquote es)
                 else if e = CHR ''b'' then map_option ((#) (CHR 0x08)) (unquote es)
                 else if e = CHR ''f'' then map_option ((#) (CHR 0x0C)) (unquote es)
                 else if e = CHR ''n'' then map_option ((#) (CHR 0x0A)) (unquote es)
                 else if e = CHR ''r'' then map_option ((#) (CHR 0x0D)) (unquote es)
                 else if e = CHR ''t'' then map_option ((#) (CHR 0x09)) (unquote es)
                 else if e = CHR ''u'' then
                   (case getu4 s of
                      None \<Rightarrow> None
                    | Some rr \<Rightarrow>
                        if 0xD800 \<le> rr \<and> rr < 0xE000 then
                          (case getu4 (drop 6 s) of
                             None \<Rightarrow> map_option ((@) (EncodeRune RuneError)) (unquote (drop 6 s))
                           | Some rr1 \<Rightarrow>
                               if rr < 0xDC00 \<and> 0xDC00 \<le> rr1 \<and> rr1 < 0xE000
                               then map_option
                                      ((@) (EncodeRune ((rr - 0xD800) * 1024 + (rr1 - 0xDC00) + 0x10000)))
                                      (unquote (drop 12 s))
                               else map_option ((@) (EncodeRune RuneError)) (unquote (drop 6 s)))
                        else map_option ((@) (EncodeRune rr)) (unquote (drop 6 s)))
                 else None)
          else if c = CHR 0x22 \<or> byte_of c < 0x20 then None
          else if byte_of c < RuneSelf then map_option ((#) c) (unquote cs)
          else
            (case DecodeRune s of (rr, width) \<Rightarrow>
               map_option ((@) (EncodeRune rr)) (unquote (drop width s))))"
  by pat_completeness auto
termination
proof (relation "measure length")
  fix s :: string and c cs x rr width
  assume "s = c # cs" and "(rr, width) = DecodeRune s"
  then have "0 < width"
    using DecodeRune_size_pos [of s] by (cases "DecodeRune s") auto
  with \<open>s = c # cs\<close> show "(drop width s, s) \<in> measure length"
    by simp
qed auto

declare unquote.simps [simp del]

text \<open>
  The scanner on a number: the literal and what follows it. After an optional \<open>-\<close> come
  \<open>0\<close> or digits that do not begin with \<open>0\<close>, then optionally a point with digits, then
  optionally an exponent with digits.
\<close>

definition scan_number :: "string \<Rightarrow> (string \<times> string) option" where
  "scan_number s =
     (let sign = (if HasPrefix s ''-'' then ''-'' else []);
          s1 = drop (length sign) s;
          ip = (if HasPrefix s1 ''0'' then ''0'' else takeWhile is_digit s1);
          s2 = drop (length ip) s1;
          fp = (if HasPrefix s2 ''.'' then ''.'' @ takeWhile is_digit (drop 1 s2) else []);
          s3 = drop (length fp) s2;
          es = (if HasPrefix s3 ''e'' \<or> HasPrefix s3 ''E'' then
                  (if HasPrefix (drop 1 s3) ''+'' \<or> HasPrefix (drop 1 s3) ''-''
                   then take 2 s3 @ takeWhile is_digit (drop 2 s3)
                   else take 1 s3 @ takeWhile is_digit (drop 1 s3))
                else []);
          s4 = drop (length es) s3
      in if ip = [] \<or> fp = ''.'' \<or> (es \<noteq> [] \<and> \<not> is_digit (last es)) then None
         else Some (sign @ ip @ fp @ es, s4))"

text \<open>\<^verbatim>\<open>maxNestingDepth\<close>: arrays and objects nest at most this deep.\<close>

definition maxNestingDepth :: nat where
  "maxNestingDepth = 10000"

text \<open>
  One JSON value at the start of the text, after white space, and what follows it. The
  first argument counts the arrays and objects that are open. \<open>json_elements\<close> reads the
  elements of an array up to its closing bracket, \<open>json_members\<close> the members of an
  object up to its closing brace. Where a function goes on with the text that another
  one left over, it checks that the text has become shorter.
\<close>

function json_value :: "nat \<Rightarrow> string \<Rightarrow> (json \<times> string) option"
  and json_elements :: "nat \<Rightarrow> string \<Rightarrow> (json list \<times> string) option"
  and json_members :: "nat \<Rightarrow> string \<Rightarrow> ((string \<times> json) list \<times> string) option"
where
  "json_value d s =
     (case skip_space s of
        [] \<Rightarrow> None
      | c # cs \<Rightarrow>
          if c = CHR ''['' then
            (if maxNestingDepth \<le> d then None
             else if HasPrefix (skip_space cs) '']'' then Some (JArray [], drop 1 (skip_space cs))
             else (case json_elements (Suc d) cs of
                     None \<Rightarrow> None
                   | Some (vs, rest) \<Rightarrow> Some (JArray vs, rest)))
          else if c = CHR ''{'' then
            (if maxNestingDepth \<le> d then None
             else if HasPrefix (skip_space cs) ''}'' then Some (JObject [], drop 1 (skip_space cs))
             else (case json_members (Suc d) cs of
                     None \<Rightarrow> None
                   | Some (ms, rest) \<Rightarrow> Some (JObject ms, rest)))
          else if c = CHR 0x22 then
            (case scan_string cs of
               None \<Rightarrow> None
             | Some (raw, rest) \<Rightarrow>
                 (case unquote raw of None \<Rightarrow> None | Some str \<Rightarrow> Some (JString str, rest)))
          else if c = CHR ''-'' \<or> is_digit c then
            (case scan_number (c # cs) of
               None \<Rightarrow> None
             | Some (lit, rest) \<Rightarrow> Some (JNumber lit, rest))
          else if HasPrefix (c # cs) ''true'' then Some (JBool True, drop 4 (c # cs))
          else if HasPrefix (c # cs) ''false'' then Some (JBool False, drop 5 (c # cs))
          else if HasPrefix (c # cs) ''null'' then Some (JNull, drop 4 (c # cs))
          else None)"
| "json_elements d s =
     (case json_value d s of
        None \<Rightarrow> None
      | Some (v, rest) \<Rightarrow>
          (case skip_space rest of
             [] \<Rightarrow> None
           | c # rest' \<Rightarrow>
               if c = CHR '']'' then Some ([v], rest')
               else if c = CHR '','' \<and> length rest' < length s then
                 (case json_elements d rest' of
                    None \<Rightarrow> None
                  | Some (vs, rest'') \<Rightarrow> Some (v # vs, rest''))
               else None))"
| "json_members d s =
     (case skip_space s of
        [] \<Rightarrow> None
      | q # cs \<Rightarrow>
          if q \<noteq> CHR 0x22 then None
          else
            (case scan_string cs of
               None \<Rightarrow> None
             | Some (raw, rest) \<Rightarrow>
                 (case unquote raw of
                    None \<Rightarrow> None
                  | Some key \<Rightarrow>
                      (case skip_space rest of
                         [] \<Rightarrow> None
                       | colon # rest1 \<Rightarrow>
                           if colon \<noteq> CHR '':'' \<or> \<not> length rest1 < length s then None
                           else
                             (case json_value d rest1 of
                                None \<Rightarrow> None
                              | Some (v, rest2) \<Rightarrow>
                                  (case skip_space rest2 of
                                     [] \<Rightarrow> None
                                   | c # rest3 \<Rightarrow>
                                       if c = CHR ''}'' then Some ([(key, v)], rest3)
                                       else if c = CHR '','' \<and> length rest3 < length s then
                                         (case json_members d rest3 of
                                            None \<Rightarrow> None
                                          | Some (ms, rest4) \<Rightarrow> Some ((key, v) # ms, rest4))
                                       else None))))))"
  by pat_completeness auto
termination
proof (relation "measure (\<lambda>x. case x of
    Inl (d, s) \<Rightarrow> 2 * length s
  | Inr (Inl (d, s)) \<Rightarrow> 2 * length s + 1
  | Inr (Inr (d, s)) \<Rightarrow> 2 * length s + 1)")
  fix d :: nat and s :: string and c cs
  assume "skip_space s = c # cs"
  then have "length (c # cs) \<le> length s"
    unfolding skip_space_def by (metis length_dropWhile_le)
  then show "(Inr (Inl (Suc d, cs)), Inl (d, s)) \<in> measure (\<lambda>x. case x of
      Inl (d, s) \<Rightarrow> 2 * length s
    | Inr (Inl (d, s)) \<Rightarrow> 2 * length s + 1
    | Inr (Inr (d, s)) \<Rightarrow> 2 * length s + 1)"
    and "(Inr (Inr (Suc d, cs)), Inl (d, s)) \<in> measure (\<lambda>x. case x of
      Inl (d, s) \<Rightarrow> 2 * length s
    | Inr (Inl (d, s)) \<Rightarrow> 2 * length s + 1
    | Inr (Inr (d, s)) \<Rightarrow> 2 * length s + 1)"
    by simp_all
qed auto

declare json_value.simps [simp del] json_elements.simps [simp del] json_members.simps [simp del]

text \<open>The whole text: one value, with nothing but white space after it.\<close>

definition json_parse :: "string \<Rightarrow> json option" where
  "json_parse data =
     (case json_value 0 data of
        None \<Rightarrow> None
      | Some (v, rest) \<Rightarrow> if skip_space rest = [] then Some v else None)"

subsection \<open>Storing a JSON value into a Go value\<close>

text \<open>
  The decoder records the first value that does not fit its target and goes on; after
  a well-formed text that first mismatch is the error \<^verbatim>\<open>Unmarshal\<close> returns. The decoders
  below stop at the first mismatch, in the order of the text, which gives the same
  result. An error keeps what Go's \<^verbatim>\<open>UnmarshalTypeError\<close> calls \<open>Value\<close> and \<open>Type\<close>.
\<close>

datatype json_error =
    SyntaxError
  | UnmarshalTypeError string string

definition json_kind :: "json \<Rightarrow> string" where
  "json_kind j =
     (case j of
        JNull \<Rightarrow> ''null'' | JBool _ \<Rightarrow> ''bool'' | JNumber _ \<Rightarrow> ''number''
      | JString _ \<Rightarrow> ''string'' | JArray _ \<Rightarrow> ''array'' | JObject _ \<Rightarrow> ''object'')"

text \<open>
  Each decoder takes the JSON value and the Go value that is there already, and returns
  the Go value afterwards. \<^verbatim>\<open>null\<close> leaves a string, a number, a boolean or a struct as it
  is, and sets a pointer or a slice to \<^verbatim>\<open>nil\<close>.
\<close>

definition decode_string :: "json \<Rightarrow> string \<Rightarrow> json_error + string" where
  "decode_string j cur =
     (case j of
        JNull \<Rightarrow> Inr cur
      | JString str \<Rightarrow> Inr str
      | _ \<Rightarrow> Inl (UnmarshalTypeError (json_kind j) ''string''))"

definition decode_bool :: "json \<Rightarrow> bool \<Rightarrow> json_error + bool" where
  "decode_bool j cur =
     (case j of
        JNull \<Rightarrow> Inr cur
      | JBool b \<Rightarrow> Inr b
      | _ \<Rightarrow> Inl (UnmarshalTypeError (json_kind j) ''bool''))"

definition decode_int :: "json \<Rightarrow> int \<Rightarrow> json_error + int" where
  "decode_int j cur =
     (case j of
        JNull \<Rightarrow> Inr cur
      | JNumber lit \<Rightarrow>
          (case ParseInt lit of
             None \<Rightarrow> Inl (UnmarshalTypeError (''number '' @ lit) ''int'')
           | Some n \<Rightarrow> Inr n)
      | _ \<Rightarrow> Inl (UnmarshalTypeError (json_kind j) ''int''))"

definition decode_int_ptr :: "json \<Rightarrow> int option \<Rightarrow> json_error + int option" where
  "decode_int_ptr j cur =
     (case j of
        JNull \<Rightarrow> Inr None
      | _ \<Rightarrow> map_sum id Some (decode_int j (case cur of None \<Rightarrow> 0 | Some n \<Rightarrow> n)))"

definition decode_float_ptr :: "json \<Rightarrow> float64 option \<Rightarrow> json_error + float64 option" where
  "decode_float_ptr j cur =
     (case j of
        JNull \<Rightarrow> Inr None
      | JNumber lit \<Rightarrow>
          (case ParseFloat lit of
             None \<Rightarrow> Inl (UnmarshalTypeError (''number '' @ lit) ''float64'')
           | Some f \<Rightarrow> Inr (Some f))
      | _ \<Rightarrow> Inl (UnmarshalTypeError (json_kind j) ''float64''))"

text \<open>
  A key of an object selects the field whose name it equals or, failing that, the first
  field whose name it equals when case is ignored. Ignoring case maps the letters of
  ASCII to upper case and the two runes that fold to ASCII letters, the long s \<open>U+017F\<close>
  and the Kelvin sign \<open>U+212A\<close>, to \<open>S\<close> and \<open>K\<close>; all field names here are ASCII.
\<close>

fun foldName :: "string \<Rightarrow> string" where
  "foldName [] = []"
| "foldName (c # cs) =
     (if CHR ''a'' \<le> c \<and> c \<le> CHR ''z'' then char_of (byte_of c - 32) # foldName cs
      else if HasPrefix (c # cs) [CHR 0xC5, CHR 0xBF] then CHR ''S'' # foldName (drop 1 cs)
      else if HasPrefix (c # cs) [CHR 0xE2, CHR 0x84, CHR 0xAA] then CHR ''K'' # foldName (drop 2 cs)
      else c # foldName cs)"

definition match_field :: "string list \<Rightarrow> string \<Rightarrow> string option" where
  "match_field names key =
     (case find (\<lambda>n. n = key) names of
        Some n \<Rightarrow> Some n
      | None \<Rightarrow> find (\<lambda>n. foldName n = foldName key) names)"

text \<open>
  The members of an object are stored one after the other, so a key that comes twice
  is stored twice, into the value the first left.
\<close>

fun decode_members ::
  "(string \<Rightarrow> json \<Rightarrow> 'a \<Rightarrow> json_error + 'a) \<Rightarrow> (string \<times> json) list \<Rightarrow> 'a \<Rightarrow> json_error + 'a"
where
  "decode_members field [] cur = Inr cur"
| "decode_members field ((key, v) # ms) cur =
     (case field key v cur of
        Inl err \<Rightarrow> Inl err
      | Inr cur' \<Rightarrow> decode_members field ms cur')"

definition decode_struct ::
  "string \<Rightarrow> (string \<Rightarrow> json \<Rightarrow> 'a \<Rightarrow> json_error + 'a) \<Rightarrow> json \<Rightarrow> 'a \<Rightarrow> json_error + 'a"
where
  "decode_struct tyname field j cur =
     (case j of
        JNull \<Rightarrow> Inr cur
      | JObject ms \<Rightarrow> decode_members field ms cur
      | _ \<Rightarrow> Inl (UnmarshalTypeError (json_kind j) tyname))"

text \<open>
  The elements of an array are stored one after the other into the memory of the slice:
  element \<open>i\<close> goes into what the backing array holds at \<open>i\<close>, and into a zero value
  where the backing array ends. \<open>decode_elements\<close> takes that memory as a list.
\<close>

fun decode_elements ::
  "(json \<Rightarrow> 'a \<Rightarrow> json_error + 'a) \<Rightarrow> 'a \<Rightarrow> json list \<Rightarrow> 'a list \<Rightarrow> json_error + 'a list"
where
  "decode_elements elem zero [] cur = Inr []"
| "decode_elements elem zero (x # xs) cur =
     (case elem x (case cur of [] \<Rightarrow> zero | c # _ \<Rightarrow> c) of
        Inl err \<Rightarrow> Inl err
      | Inr v \<Rightarrow>
          (case decode_elements elem zero xs (tl cur) of
             Inl err \<Rightarrow> Inl err
           | Inr vs \<Rightarrow> Inr (v # vs)))"

text \<open>
  A slice is its elements up to its length, \<open>cur\<close>, and what its backing array holds
  beyond the length, \<open>spare\<close>. The decoder sets the length to the number of elements of
  the array and leaves the memory beyond it alone, so that a shorter array turns the
  elements it does not reach into spare ones, and a later, longer array under the same
  key is stored into them. \<^verbatim>\<open>null\<close> sets the slice to \<^verbatim>\<open>nil\<close> and an empty array sets it to a
  new empty slice; neither has memory. The backing array grows only when the slice fills
  it, and new memory is zero, so no more than the spare elements need be kept.
\<close>

definition decode_backed ::
  "string \<Rightarrow> (json \<Rightarrow> 'a \<Rightarrow> json_error + 'a) \<Rightarrow> 'a \<Rightarrow> json \<Rightarrow> 'a list \<Rightarrow> 'a list \<Rightarrow>
   json_error + 'a list \<times> 'a list"
where
  "decode_backed tyname elem zero j cur spare =
     (case j of
        JNull \<Rightarrow> Inr ([], [])
      | JArray xs \<Rightarrow>
          if xs = [] then Inr ([], [])
          else map_sum id (\<lambda>vs. (vs, drop (length xs) (cur @ spare)))
                 (decode_elements elem zero xs (cur @ spare))
      | _ \<Rightarrow> Inl (UnmarshalTypeError (json_kind j) tyname))"

text \<open>A slice variable that is decoded into once, as the renderers declare them.\<close>

definition decode_slice ::
  "string \<Rightarrow> (json \<Rightarrow> 'a \<Rightarrow> json_error + 'a) \<Rightarrow> 'a \<Rightarrow> json \<Rightarrow> 'a list \<Rightarrow> json_error + 'a list"
where
  "decode_slice tyname elem zero j cur = map_sum id fst (decode_backed tyname elem zero j cur [])"

text \<open>\<^verbatim>\<open>json.Unmarshal(data, &v)\<close> for a decoder of the type of \<open>v\<close> and the value \<open>v\<close> has.\<close>

definition Unmarshal :: "(json \<Rightarrow> 'a \<Rightarrow> json_error + 'a) \<Rightarrow> string \<Rightarrow> 'a \<Rightarrow> json_error + 'a" where
  "Unmarshal decode data v =
     (case json_parse data of
        None \<Rightarrow> Inl SyntaxError
      | Some j \<Rightarrow> decode j v)"

section \<open>Package format\<close>

subsection \<open>The record shapes\<close>

text \<open>
  The structs of the package. Where two structs have a field of the same name, the
  field of the later one carries the name of its struct in front. A field that is a
  slice is two fields here: the elements of the slice and, under the name that ends in
  \<open>_spare\<close>, what its backing array holds beyond them. Only the decoder reads and writes
  the second; every zero value and every slice decoded from a text in which no key comes
  twice has it empty.
\<close>

record Location =
  ID :: string
  Name :: string
  Type :: string
  Latitude :: "float64 option"
  Longitude :: "float64 option"
  Distance :: "int option"

record Line =
  Line_Name :: string

record Stopover =
  When :: string
  PlannedWhen :: string
  Delay :: "int option"
  Platform :: string
  PlannedPlatform :: string
  Cancelled :: bool
  Direction :: string
  Line :: Line
  Stop :: Location

record Leg =
  Origin :: "Location option"
  Destination :: "Location option"
  Departure :: string
  PlannedDep :: string
  Arrival :: string
  PlannedArr :: string

record Journey =
  Legs :: "Leg list"
  Legs_spare :: "Leg list"
  Transfers :: int

record JourneysResponse =
  Journeys :: "Journey list"
  Journeys_spare :: "Journey list"

record TripStop =
  TripStop_Stop :: Location
  TripStop_Arrival :: string
  PlannedArrival :: string
  TripStop_Departure :: string
  PlannedDeparture :: string
  TripStop_Platform :: string
  TripStop_PlannedPlatform :: string

record Trip =
  Trip_Line :: Line
  Stopovers :: "TripStop list"
  Stopovers_spare :: "TripStop list"

record TripResponse =
  Trip :: Trip

record Position =
  Position_Latitude :: "float64 option"
  Position_Longitude :: "float64 option"

record Movement =
  Movement_Line :: Line
  Movement_Direction :: string
  Movement_Location :: Position

record RadarResponse =
  Movements :: "Movement list"
  Movements_spare :: "Movement list"

text \<open>The zero values.\<close>

definition zero_Location :: Location where
  "zero_Location =
     \<lparr>ID = [], Name = [], Type = [], Latitude = None, Longitude = None, Distance = None\<rparr>"

definition zero_Line :: Line where
  "zero_Line = \<lparr>Line_Name = []\<rparr>"

definition zero_Stopover :: Stopover where
  "zero_Stopover =
     \<lparr>When = [], PlannedWhen = [], Delay = None, Platform = [], PlannedPlatform = [],
      Cancelled = False, Direction = [], Line = zero_Line, Stop = zero_Location\<rparr>"

definition zero_Leg :: Leg where
  "zero_Leg =
     \<lparr>Origin = None, Destination = None, Departure = [], PlannedDep = [], Arrival = [],
      PlannedArr = []\<rparr>"

definition zero_Journey :: Journey where
  "zero_Journey = \<lparr>Legs = [], Legs_spare = [], Transfers = 0\<rparr>"

definition zero_TripStop :: TripStop where
  "zero_TripStop =
     \<lparr>TripStop_Stop = zero_Location, TripStop_Arrival = [], PlannedArrival = [],
      TripStop_Departure = [], PlannedDeparture = [], TripStop_Platform = [],
      TripStop_PlannedPlatform = []\<rparr>"

definition zero_Trip :: Trip where
  "zero_Trip = \<lparr>Trip_Line = zero_Line, Stopovers = [], Stopovers_spare = []\<rparr>"

definition zero_Position :: Position where
  "zero_Position = \<lparr>Position_Latitude = None, Position_Longitude = None\<rparr>"

definition zero_Movement :: Movement where
  "zero_Movement =
     \<lparr>Movement_Line = zero_Line, Movement_Direction = [], Movement_Location = zero_Position\<rparr>"

subsection \<open>The decoders of the record shapes\<close>

text \<open>One decoder for each struct, by the \<^verbatim>\<open>json\<close> tags of its fields.\<close>

definition Location_field :: "string \<Rightarrow> json \<Rightarrow> Location \<Rightarrow> json_error + Location" where
  "Location_field key v loc =
     (let f = match_field [''id'', ''name'', ''type'', ''latitude'', ''longitude'', ''distance''] key in
      if f = Some ''id'' then map_sum id (\<lambda>x. loc\<lparr>ID := x\<rparr>) (decode_string v (ID loc))
      else if f = Some ''name'' then map_sum id (\<lambda>x. loc\<lparr>Name := x\<rparr>) (decode_string v (Name loc))
      else if f = Some ''type'' then map_sum id (\<lambda>x. loc\<lparr>Type := x\<rparr>) (decode_string v (Type loc))
      else if f = Some ''latitude''
        then map_sum id (\<lambda>x. loc\<lparr>Latitude := x\<rparr>) (decode_float_ptr v (Latitude loc))
      else if f = Some ''longitude''
        then map_sum id (\<lambda>x. loc\<lparr>Longitude := x\<rparr>) (decode_float_ptr v (Longitude loc))
      else if f = Some ''distance''
        then map_sum id (\<lambda>x. loc\<lparr>Distance := x\<rparr>) (decode_int_ptr v (Distance loc))
      else Inr loc)"

definition decode_Location :: "json \<Rightarrow> Location \<Rightarrow> json_error + Location" where
  "decode_Location = decode_struct ''format.Location'' Location_field"

text \<open>A pointer to a struct: \<^verbatim>\<open>null\<close> makes it \<^verbatim>\<open>nil\<close>, an object is stored into what it points to.\<close>

definition decode_Location_ptr :: "json \<Rightarrow> Location option \<Rightarrow> json_error + Location option" where
  "decode_Location_ptr j cur =
     (case j of
        JNull \<Rightarrow> Inr None
      | _ \<Rightarrow> map_sum id Some
               (decode_Location j (case cur of None \<Rightarrow> zero_Location | Some loc \<Rightarrow> loc)))"

definition Line_field :: "string \<Rightarrow> json \<Rightarrow> Line \<Rightarrow> json_error + Line" where
  "Line_field key v ln =
     (if match_field [''name''] key = Some ''name''
      then map_sum id (\<lambda>x. ln\<lparr>Line_Name := x\<rparr>) (decode_string v (Line_Name ln))
      else Inr ln)"

definition decode_Line :: "json \<Rightarrow> Line \<Rightarrow> json_error + Line" where
  "decode_Line = decode_struct ''format.Line'' Line_field"

definition Stopover_field :: "string \<Rightarrow> json \<Rightarrow> Stopover \<Rightarrow> json_error + Stopover" where
  "Stopover_field key v st =
     (let f = match_field [''when'', ''plannedWhen'', ''delay'', ''platform'', ''plannedPlatform'',
                           ''cancelled'', ''direction'', ''line'', ''stop''] key in
      if f = Some ''when'' then map_sum id (\<lambda>x. st\<lparr>When := x\<rparr>) (decode_string v (When st))
      else if f = Some ''plannedWhen''
        then map_sum id (\<lambda>x. st\<lparr>PlannedWhen := x\<rparr>) (decode_string v (PlannedWhen st))
      else if f = Some ''delay'' then map_sum id (\<lambda>x. st\<lparr>Delay := x\<rparr>) (decode_int_ptr v (Delay st))
      else if f = Some ''platform''
        then map_sum id (\<lambda>x. st\<lparr>Platform := x\<rparr>) (decode_string v (Platform st))
      else if f = Some ''plannedPlatform''
        then map_sum id (\<lambda>x. st\<lparr>PlannedPlatform := x\<rparr>) (decode_string v (PlannedPlatform st))
      else if f = Some ''cancelled''
        then map_sum id (\<lambda>x. st\<lparr>Cancelled := x\<rparr>) (decode_bool v (Cancelled st))
      else if f = Some ''direction''
        then map_sum id (\<lambda>x. st\<lparr>Direction := x\<rparr>) (decode_string v (Direction st))
      else if f = Some ''line'' then map_sum id (\<lambda>x. st\<lparr>Line := x\<rparr>) (decode_Line v (Line st))
      else if f = Some ''stop'' then map_sum id (\<lambda>x. st\<lparr>Stop := x\<rparr>) (decode_Location v (Stop st))
      else Inr st)"

definition decode_Stopover :: "json \<Rightarrow> Stopover \<Rightarrow> json_error + Stopover" where
  "decode_Stopover = decode_struct ''format.Stopover'' Stopover_field"

definition Leg_field :: "string \<Rightarrow> json \<Rightarrow> Leg \<Rightarrow> json_error + Leg" where
  "Leg_field key v leg =
     (let f = match_field [''origin'', ''destination'', ''departure'', ''plannedDeparture'',
                           ''arrival'', ''plannedArrival''] key in
      if f = Some ''origin''
        then map_sum id (\<lambda>x. leg\<lparr>Origin := x\<rparr>) (decode_Location_ptr v (Origin leg))
      else if f = Some ''destination''
        then map_sum id (\<lambda>x. leg\<lparr>Destination := x\<rparr>) (decode_Location_ptr v (Destination leg))
      else if f = Some ''departure''
        then map_sum id (\<lambda>x. leg\<lparr>Departure := x\<rparr>) (decode_string v (Departure leg))
      else if f = Some ''plannedDeparture''
        then map_sum id (\<lambda>x. leg\<lparr>PlannedDep := x\<rparr>) (decode_string v (PlannedDep leg))
      else if f = Some ''arrival''
        then map_sum id (\<lambda>x. leg\<lparr>Arrival := x\<rparr>) (decode_string v (Arrival leg))
      else if f = Some ''plannedArrival''
        then map_sum id (\<lambda>x. leg\<lparr>PlannedArr := x\<rparr>) (decode_string v (PlannedArr leg))
      else Inr leg)"

definition decode_Leg :: "json \<Rightarrow> Leg \<Rightarrow> json_error + Leg" where
  "decode_Leg = decode_struct ''format.Leg'' Leg_field"

definition Journey_field :: "string \<Rightarrow> json \<Rightarrow> Journey \<Rightarrow> json_error + Journey" where
  "Journey_field key v jn =
     (let f = match_field [''legs'', ''transfers''] key in
      if f = Some ''legs''
        then map_sum id (\<lambda>(x, spare). jn\<lparr>Legs := x, Legs_spare := spare\<rparr>)
               (decode_backed ''[]format.Leg'' decode_Leg zero_Leg v (Legs jn) (Legs_spare jn))
      else if f = Some ''transfers''
        then map_sum id (\<lambda>x. jn\<lparr>Transfers := x\<rparr>) (decode_int v (Transfers jn))
      else Inr jn)"

definition decode_Journey :: "json \<Rightarrow> Journey \<Rightarrow> json_error + Journey" where
  "decode_Journey = decode_struct ''format.Journey'' Journey_field"

definition JourneysResponse_field ::
  "string \<Rightarrow> json \<Rightarrow> JourneysResponse \<Rightarrow> json_error + JourneysResponse" where
  "JourneysResponse_field key v resp =
     (if match_field [''journeys''] key = Some ''journeys''
      then map_sum id (\<lambda>(x, spare). resp\<lparr>Journeys := x, Journeys_spare := spare\<rparr>)
             (decode_backed ''[]format.Journey'' decode_Journey zero_Journey v
                (Journeys resp) (Journeys_spare resp))
      else Inr resp)"

definition decode_JourneysResponse ::
  "json \<Rightarrow> JourneysResponse \<Rightarrow> json_error + JourneysResponse" where
  "decode_JourneysResponse = decode_struct ''format.JourneysResponse'' JourneysResponse_field"

definition TripStop_field :: "string \<Rightarrow> json \<Rightarrow> TripStop \<Rightarrow> json_error + TripStop" where
  "TripStop_field key v ts =
     (let f = match_field [''stop'', ''arrival'', ''plannedArrival'', ''departure'',
                           ''plannedDeparture'', ''platform'', ''plannedPlatform''] key in
      if f = Some ''stop''
        then map_sum id (\<lambda>x. ts\<lparr>TripStop_Stop := x\<rparr>) (decode_Location v (TripStop_Stop ts))
      else if f = Some ''arrival''
        then map_sum id (\<lambda>x. ts\<lparr>TripStop_Arrival := x\<rparr>) (decode_string v (TripStop_Arrival ts))
      else if f = Some ''plannedArrival''
        then map_sum id (\<lambda>x. ts\<lparr>PlannedArrival := x\<rparr>) (decode_string v (PlannedArrival ts))
      else if f = Some ''departure''
        then map_sum id (\<lambda>x. ts\<lparr>TripStop_Departure := x\<rparr>)
               (decode_string v (TripStop_Departure ts))
      else if f = Some ''plannedDeparture''
        then map_sum id (\<lambda>x. ts\<lparr>PlannedDeparture := x\<rparr>) (decode_string v (PlannedDeparture ts))
      else if f = Some ''platform''
        then map_sum id (\<lambda>x. ts\<lparr>TripStop_Platform := x\<rparr>) (decode_string v (TripStop_Platform ts))
      else if f = Some ''plannedPlatform''
        then map_sum id (\<lambda>x. ts\<lparr>TripStop_PlannedPlatform := x\<rparr>)
               (decode_string v (TripStop_PlannedPlatform ts))
      else Inr ts)"

definition decode_TripStop :: "json \<Rightarrow> TripStop \<Rightarrow> json_error + TripStop" where
  "decode_TripStop = decode_struct ''format.TripStop'' TripStop_field"

definition Trip_field :: "string \<Rightarrow> json \<Rightarrow> Trip \<Rightarrow> json_error + Trip" where
  "Trip_field key v tr =
     (let f = match_field [''line'', ''stopovers''] key in
      if f = Some ''line''
        then map_sum id (\<lambda>x. tr\<lparr>Trip_Line := x\<rparr>) (decode_Line v (Trip_Line tr))
      else if f = Some ''stopovers''
        then map_sum id (\<lambda>(x, spare). tr\<lparr>Stopovers := x, Stopovers_spare := spare\<rparr>)
               (decode_backed ''[]format.TripStop'' decode_TripStop zero_TripStop v
                  (Stopovers tr) (Stopovers_spare tr))
      else Inr tr)"

definition decode_Trip :: "json \<Rightarrow> Trip \<Rightarrow> json_error + Trip" where
  "decode_Trip = decode_struct ''format.Trip'' Trip_field"

definition TripResponse_field :: "string \<Rightarrow> json \<Rightarrow> TripResponse \<Rightarrow> json_error + TripResponse" where
  "TripResponse_field key v resp =
     (if match_field [''trip''] key = Some ''trip''
      then map_sum id (\<lambda>x. resp\<lparr>Trip := x\<rparr>) (decode_Trip v (Trip resp))
      else Inr resp)"

definition decode_TripResponse :: "json \<Rightarrow> TripResponse \<Rightarrow> json_error + TripResponse" where
  "decode_TripResponse = decode_struct ''format.TripResponse'' TripResponse_field"

definition Position_field :: "string \<Rightarrow> json \<Rightarrow> Position \<Rightarrow> json_error + Position" where
  "Position_field key v pos =
     (let f = match_field [''latitude'', ''longitude''] key in
      if f = Some ''latitude''
        then map_sum id (\<lambda>x. pos\<lparr>Position_Latitude := x\<rparr>)
               (decode_float_ptr v (Position_Latitude pos))
      else if f = Some ''longitude''
        then map_sum id (\<lambda>x. pos\<lparr>Position_Longitude := x\<rparr>)
               (decode_float_ptr v (Position_Longitude pos))
      else Inr pos)"

definition decode_Position :: "json \<Rightarrow> Position \<Rightarrow> json_error + Position" where
  "decode_Position = decode_struct ''format.Position'' Position_field"

definition Movement_field :: "string \<Rightarrow> json \<Rightarrow> Movement \<Rightarrow> json_error + Movement" where
  "Movement_field key v mv =
     (let f = match_field [''line'', ''direction'', ''location''] key in
      if f = Some ''line''
        then map_sum id (\<lambda>x. mv\<lparr>Movement_Line := x\<rparr>) (decode_Line v (Movement_Line mv))
      else if f = Some ''direction''
        then map_sum id (\<lambda>x. mv\<lparr>Movement_Direction := x\<rparr>)
               (decode_string v (Movement_Direction mv))
      else if f = Some ''location''
        then map_sum id (\<lambda>x. mv\<lparr>Movement_Location := x\<rparr>)
               (decode_Position v (Movement_Location mv))
      else Inr mv)"

definition decode_Movement :: "json \<Rightarrow> Movement \<Rightarrow> json_error + Movement" where
  "decode_Movement = decode_struct ''format.Movement'' Movement_field"

definition RadarResponse_field ::
  "string \<Rightarrow> json \<Rightarrow> RadarResponse \<Rightarrow> json_error + RadarResponse" where
  "RadarResponse_field key v resp =
     (if match_field [''movements''] key = Some ''movements''
      then map_sum id (\<lambda>(x, spare). resp\<lparr>Movements := x, Movements_spare := spare\<rparr>)
             (decode_backed ''[]format.Movement'' decode_Movement zero_Movement v
                (Movements resp) (Movements_spare resp))
      else Inr resp)"

definition decode_RadarResponse :: "json \<Rightarrow> RadarResponse \<Rightarrow> json_error + RadarResponse" where
  "decode_RadarResponse = decode_struct ''format.RadarResponse'' RadarResponse_field"

subsection \<open>The fallback rules\<close>

definition tab :: string where
  "tab = [CHR 0x09]"

definition newline :: string where
  "newline = [CHR 0x0A]"

definition formatFloat :: "float64 option \<Rightarrow> string" where
  "formatFloat v = (case v of None \<Rightarrow> ''-'' | Some f \<Rightarrow> fmt_6f f)"

definition formatInt :: "int option \<Rightarrow> string" where
  "formatInt v = (case v of None \<Rightarrow> ''-'' | Some n \<Rightarrow> fmt_d n)"

text \<open>
  \<^verbatim>\<open>formatDelay(delay *int)\<close>. Go's \<^verbatim>\<open>%\<close> and \<^verbatim>\<open>/\<close> on integers truncate towards zero:
  they are \<open>smod\<close> and \<open>sdiv\<close>.
\<close>

definition formatDelay :: "int option \<Rightarrow> string" where
  "formatDelay delay =
     (case delay of
        None \<Rightarrow> ''-''
      | Some d \<Rightarrow>
          if d = 0 then ''0m''
          else if d smod 60 = 0 then fmt_plus_d (d sdiv 60) @ ''m''
          else fmt_plus_d d @ ''s'')"

definition pickString :: "string \<Rightarrow> string \<Rightarrow> string" where
  "pickString primary fallback =
     (if TrimSpace primary \<noteq> [] then primary
      else if TrimSpace fallback \<noteq> [] then fallback
      else ''-'')"

definition pickTime :: "string \<Rightarrow> string \<Rightarrow> string" where
  "pickTime primary fallback =
     (if TrimSpace primary \<noteq> [] then primary
      else if TrimSpace fallback \<noteq> [] then fallback
      else ''-'')"

definition locationName :: "Location option \<Rightarrow> string" where
  "locationName loc =
     (case loc of
        None \<Rightarrow> ''-''
      | Some l \<Rightarrow> if TrimSpace (Name l) \<noteq> [] then Name l else ID l)"

subsection \<open>The renderers\<close>

text \<open>
  Every renderer returns the text or the error of \<^verbatim>\<open>json.Unmarshal\<close>. The loop that
  writes one line for each record into the builder is the concatenation of the lines.
\<close>

definition no_results :: "bool \<Rightarrow> string" where
  "no_results withHeader = (if withHeader then ''no results'' @ newline else [])"

definition Location_line :: "Location \<Rightarrow> string" where
  "Location_line loc =
     ID loc @ tab @ Name loc @ tab @ Type loc @ tab @ formatFloat (Latitude loc) @ tab @
     formatFloat (Longitude loc) @ tab @ formatInt (Distance loc) @ newline"

definition LocationsPlain :: "string \<Rightarrow> bool \<Rightarrow> json_error + string" where
  "LocationsPlain data withHeader =
     (case Unmarshal (decode_slice ''[]format.Location'' decode_Location zero_Location) data [] of
        Inl err \<Rightarrow> Inl err
      | Inr locations \<Rightarrow>
          if length locations = 0 then Inr (no_results withHeader)
          else
            Inr ((if withHeader
                  then ''id'' @ tab @ ''name'' @ tab @ ''type'' @ tab @ ''latitude'' @ tab @
                       ''longitude'' @ tab @ ''distance_m'' @ newline
                  else []) @
                 concat (map Location_line locations)))"

definition Stopover_line :: "Stopover \<Rightarrow> string" where
  "Stopover_line s =
     (let timeValue = pickTime (When s) (PlannedWhen s);
          platform = pickString (Platform s) (PlannedPlatform s);
          status = (if Cancelled s then ''cancelled'' else ''-'')
      in timeValue @ tab @ Line_Name (Line s) @ tab @ Direction s @ tab @ platform @ tab @
         formatDelay (Delay s) @ tab @ status @ newline)"

definition StopoversPlain :: "string \<Rightarrow> bool \<Rightarrow> json_error + string" where
  "StopoversPlain data withHeader =
     (case Unmarshal (decode_slice ''[]format.Stopover'' decode_Stopover zero_Stopover) data [] of
        Inl err \<Rightarrow> Inl err
      | Inr stopovers \<Rightarrow>
          if length stopovers = 0 then Inr (no_results withHeader)
          else
            Inr ((if withHeader
                  then ''time'' @ tab @ ''line'' @ tab @ ''direction'' @ tab @ ''platform'' @ tab @
                       ''delay'' @ tab @ ''status'' @ newline
                  else []) @
                 concat (map Stopover_line stopovers)))"

text \<open>A journey without legs is passed over: it writes nothing.\<close>

definition Journey_line :: "Journey \<Rightarrow> string" where
  "Journey_line journey =
     (case Legs journey of
        [] \<Rightarrow> []
      | first # _ \<Rightarrow>
          let lst = last (Legs journey);
              origin = locationName (Origin first);
              destination = locationName (Destination lst);
              departure = pickTime (Departure first) (PlannedDep first);
              arrival = pickTime (Arrival lst) (PlannedArr lst)
          in departure @ tab @ origin @ tab @ arrival @ tab @ destination @ tab @
             fmt_d (Transfers journey) @ newline)"

definition zero_JourneysResponse :: JourneysResponse where
  "zero_JourneysResponse = \<lparr>Journeys = [], Journeys_spare = []\<rparr>"

definition JourneysPlain :: "string \<Rightarrow> bool \<Rightarrow> json_error + string" where
  "JourneysPlain data withHeader =
     (case Unmarshal decode_JourneysResponse data zero_JourneysResponse of
        Inl err \<Rightarrow> Inl err
      | Inr resp \<Rightarrow>
          if length (Journeys resp) = 0 then Inr (no_results withHeader)
          else
            Inr ((if withHeader
                  then ''departure'' @ tab @ ''origin'' @ tab @ ''arrival'' @ tab @
                       ''destination'' @ tab @ ''transfers'' @ newline
                  else []) @
                 concat (map Journey_line (Journeys resp))))"

definition TripStop_line :: "Trip \<Rightarrow> TripStop \<Rightarrow> string" where
  "TripStop_line trip stop =
     (let arrival = pickTime (TripStop_Arrival stop) (PlannedArrival stop);
          departure = pickTime (TripStop_Departure stop) (PlannedDeparture stop);
          platform = pickString (TripStop_Platform stop) (TripStop_PlannedPlatform stop)
      in Line_Name (Trip_Line trip) @ tab @ Name (TripStop_Stop stop) @ tab @ arrival @ tab @
         departure @ tab @ platform @ newline)"

definition zero_TripResponse :: TripResponse where
  "zero_TripResponse = \<lparr>Trip = zero_Trip\<rparr>"

definition TripPlain :: "string \<Rightarrow> bool \<Rightarrow> json_error + string" where
  "TripPlain data withHeader =
     (case Unmarshal decode_TripResponse data zero_TripResponse of
        Inl err \<Rightarrow> Inl err
      | Inr resp \<Rightarrow>
          if length (Stopovers (Trip resp)) = 0 then Inr (no_results withHeader)
          else
            Inr ((if withHeader
                  then ''line'' @ tab @ ''stop'' @ tab @ ''arrival'' @ tab @ ''departure'' @ tab @
                       ''platform'' @ newline
                  else []) @
                 concat (map (TripStop_line (Trip resp)) (Stopovers (Trip resp)))))"

definition Movement_line :: "Movement \<Rightarrow> string" where
  "Movement_line movement =
     Line_Name (Movement_Line movement) @ tab @ Movement_Direction movement @ tab @
     formatFloat (Position_Latitude (Movement_Location movement)) @ tab @
     formatFloat (Position_Longitude (Movement_Location movement)) @ newline"

definition zero_RadarResponse :: RadarResponse where
  "zero_RadarResponse = \<lparr>Movements = [], Movements_spare = []\<rparr>"

definition RadarPlain :: "string \<Rightarrow> bool \<Rightarrow> json_error + string" where
  "RadarPlain data withHeader =
     (case Unmarshal decode_RadarResponse data zero_RadarResponse of
        Inl err \<Rightarrow> Inl err
      | Inr resp \<Rightarrow>
          if length (Movements resp) = 0 then Inr (no_results withHeader)
          else
            Inr ((if withHeader
                  then ''line'' @ tab @ ''direction'' @ tab @ ''latitude'' @ tab @ ''longitude'' @
                       newline
                  else []) @
                 concat (map Movement_line (Movements resp))))"

section \<open>Properties\<close>

subsection \<open>Trimming white space\<close>

text \<open>
  On a string of ASCII bytes \<open>TrimSpace\<close> removes exactly the leading and the trailing run
  of the six ASCII white space bytes.
\<close>

definition trim_ascii :: "string \<Rightarrow> string" where
  "trim_ascii s = rev (dropWhile asciiSpace (rev (dropWhile asciiSpace s)))"

lemma TrimSpace_stop_ascii:
  "\<forall>c \<in> set s. byte_of c < RuneSelf \<Longrightarrow> TrimSpace_stop s = rev (dropWhile asciiSpace (rev s))"
proof (induction s rule: rev_induct)
  case Nil
  show ?case by (simp add: TrimSpace_stop.simps)
next
  case (snoc x xs)
  then show ?case
    by (subst TrimSpace_stop.simps) auto
qed

lemma TrimSpace_ascii:
  "\<forall>c \<in> set s. byte_of c < RuneSelf \<Longrightarrow> TrimSpace s = trim_ascii s"
proof (induction s)
  case Nil
  show ?case by (simp add: trim_ascii_def)
next
  case (Cons c cs)
  show ?case
  proof (cases "asciiSpace c")
    case True
    with Cons show ?thesis by (simp add: trim_ascii_def)
  next
    case False
    with Cons.prems TrimSpace_stop_ascii [of "c # cs"] show ?thesis
      by (simp add: trim_ascii_def)
  qed
qed

subsection \<open>The message of a transport failure\<close>

text \<open>
  The text the message is made from, in the spec's words: the response body trimmed of
  surrounding white space or, when that is empty, the reason phrase of the status.
\<close>

definition body_or_reason :: "HTTPError \<Rightarrow> string" where
  "body_or_reason e =
     (if TrimSpace (Body e) = [] then StatusText (Status e) else TrimSpace (Body e))"

text \<open>
  Claim C5. The message of a transport failure is \<open>request failed:\<close>, the status code and
  an excerpt of \<open>body_or_reason\<close>. An excerpt source of at most 200 bytes is kept whole,
  with nothing appended; a longer one is cut to its first 200 bytes and the ellipsis \<open>...\<close>
  is appended. So the ellipsis is appended exactly when the text was cut. On a body of
  ASCII bytes the trimming removes the leading and trailing ASCII white space.
\<close>

theorem HTTPError_Error_excerpt:
  "HTTPError_Error e =
     ''request failed: '' @ fmt_d (Status e) @ '' '' @ summarize (body_or_reason e) 200 \<and>
   (length (body_or_reason e) \<le> 200 \<longrightarrow>
      summarize (body_or_reason e) 200 = body_or_reason e) \<and>
   (200 < length (body_or_reason e) \<longrightarrow>
      summarize (body_or_reason e) 200 = take 200 (body_or_reason e) @ ''...'' \<and>
      length (take 200 (body_or_reason e)) = 200) \<and>
   ((\<forall>c \<in> set (Body e). byte_of c < RuneSelf) \<longrightarrow> TrimSpace (Body e) = trim_ascii (Body e))"
  by (auto simp: HTTPError_Error_def body_or_reason_def summarize_def Let_def TrimSpace_ascii)

theorem HTTPError_Error_excerpt_witness:
  "HTTPError_Error \<lparr>Status = 503, Body = '' ''\<rparr> = ''request failed: 503 Service Unavailable'' \<and>
   HTTPError_Error \<lparr>Status = 502, Body = ''  bad gateway  ''\<rparr> =
     ''request failed: 502 bad gateway'' \<and>
   HTTPError_Error \<lparr>Status = 500, Body = replicate 201 (CHR ''x'')\<rparr> =
     ''request failed: 500 '' @ replicate 200 (CHR ''x'') @ ''...''"
proof -
  have b1: "body_or_reason \<lparr>Status = 503, Body = '' ''\<rparr> = ''Service Unavailable''"
    by code_simp
  have b2: "body_or_reason \<lparr>Status = 502, Body = ''  bad gateway  ''\<rparr> = ''bad gateway''"
    by code_simp
  have b3: "body_or_reason \<lparr>Status = 500, Body = replicate 201 (CHR ''x'')\<rparr> =
      replicate 201 (CHR ''x'')"
    by code_simp
  have d: "fmt_d 503 = ''503''" "fmt_d 502 = ''502''" "fmt_d 500 = ''500''"
    by code_simp+
  show ?thesis
    using HTTPError_Error_excerpt [of "\<lparr>Status = 503, Body = '' ''\<rparr>"]
      HTTPError_Error_excerpt [of "\<lparr>Status = 502, Body = ''  bad gateway  ''\<rparr>"]
      HTTPError_Error_excerpt [of "\<lparr>Status = 500, Body = replicate 201 (CHR ''x'')\<rparr>"]
    by (simp add: b1 b2 b3 d)
qed

subsection \<open>Escaping and unescaping\<close>

lemma hex_table: "\<forall>n \<in> set [0..<16]. ishex (upperhex ! n) \<and> unhex (upperhex ! n) = n \<and> upperhex ! n \<notin> set ''&=;%+''"
  by code_simp

lemma hex_digit:
  assumes "n < 16"
  shows "ishex (upperhex ! n)" "unhex (upperhex ! n) = n" "upperhex ! n \<notin> set ''&=;%+''"
  using hex_table assms by auto

lemma byte_of_less: "byte_of c < 256"
  by (simp add: byte_of_def)

lemma char_of_byte_of: "char_of (byte_of c) = c"
  by (simp add: byte_of_def)

lemma shouldEscape_percent: "shouldEscape (CHR ''%'') mode"
  by (cases mode) (simp_all add: shouldEscape_def less_eq_char_def)

lemma shouldEscape_query_special:
  "shouldEscape (CHR ''+'') encodeQueryComponent"
  "shouldEscape (CHR ''&'') encodeQueryComponent" "shouldEscape (CHR ''='') encodeQueryComponent"
  "shouldEscape (CHR '';'') encodeQueryComponent"
  by (simp_all add: shouldEscape_def less_eq_char_def)

lemma unescape_escape_byte:
  assumes "mode \<noteq> encodeHost" "mode \<noteq> encodeZone"
  shows "unescape (escape_byte mode c @ rest) mode =
     (case unescape rest mode of Inl e \<Rightarrow> Inl e | Inr t \<Rightarrow> Inr (c # t))"
proof -
  have d: "byte_of c div 16 < 16" "byte_of c mod 16 < 16"
    using byte_of_less [of c] by auto
  show ?thesis
  proof (cases "c = CHR '' '' \<and> mode = encodeQueryComponent")
    case True
    then show ?thesis by (simp add: escape_byte_def split: sum.splits)
  next
    case False
    show ?thesis
    proof (cases "shouldEscape c mode")
      case True
      with False d assms show ?thesis
        by (simp add: escape_byte_def hex_digit char_of_byte_of split: sum.splits)
    next
      case no: False
      then have "c \<noteq> CHR ''%''" "mode = encodeQueryComponent \<longrightarrow> c \<noteq> CHR ''+''"
        using shouldEscape_percent shouldEscape_query_special by auto
      with False no assms show ?thesis
        by (auto simp add: escape_byte_def split: sum.splits)
    qed
  qed
qed

lemma unescape_escape:
  "mode \<noteq> encodeHost \<Longrightarrow> mode \<noteq> encodeZone \<Longrightarrow> unescape (escape s mode) mode = Inr s"
  unfolding escape_def
  by (induction s) (simp_all add: unescape_escape_byte)

lemma unescape_EscapedPath: "unescape (EscapedPath u) encodePath = Inr (Path u)"
  by (simp add: EscapedPath_def unescape_escape)

lemma QueryUnescape_QueryEscape: "QueryUnescape (QueryEscape s) = Inr s"
  by (simp add: QueryUnescape_def QueryEscape_def unescape_escape)

lemma escape_byte_clean:
  "x \<in> set (escape_byte encodeQueryComponent c) \<Longrightarrow> x \<notin> set ''&=;''"
proof -
  have d: "byte_of c div 16 < 16" "byte_of c mod 16 < 16"
    using byte_of_less [of c] by auto
  assume "x \<in> set (escape_byte encodeQueryComponent c)"
  then show ?thesis
    using hex_digit(3) [OF d(1)] hex_digit(3) [OF d(2)] shouldEscape_query_special
    by (auto simp: escape_byte_def split: if_splits)
qed

lemma QueryEscape_clean: "x \<in> set (QueryEscape s) \<Longrightarrow> x \<notin> set ''&=;''"
  unfolding QueryEscape_def escape_def using escape_byte_clean by auto

subsection \<open>Encoding and decoding a parameter set\<close>

text \<open>
  The pairs \<open>(key, value)\<close> in the order in which \<open>Encode\<close> writes them, the text of one
  pair, and the pieces joined by \<open>&\<close>.
\<close>

definition query_pairs :: "Values \<Rightarrow> (string \<times> string) list" where
  "query_pairs v = concat (map (\<lambda>k. map (Pair k) (values_of v k)) (sort (map fst v)))"

definition pair_text :: "string \<times> string \<Rightarrow> string" where
  "pair_text kv = QueryEscape (fst kv) @ ''='' @ QueryEscape (snd kv)"

fun join_amp :: "string list \<Rightarrow> string" where
  "join_amp [] = []"
| "join_amp [p] = p"
| "join_amp (p # q # ps) = p @ ''&'' @ join_amp (q # ps)"

lemma pair_text_nonempty: "pair_text kv \<noteq> []"
  by (simp add: pair_text_def)

lemma Encode_values_nonempty:
  "buf \<noteq> [] \<Longrightarrow>
   Encode_values buf (QueryEscape k) vs = buf @ concat (map (\<lambda>x. ''&'' @ pair_text (k, x)) vs)"
  by (induction vs arbitrary: buf) (simp_all add: pair_text_def)

lemma Encode_keys_nonempty:
  "buf \<noteq> [] \<Longrightarrow>
   Encode_keys v buf ks =
     buf @ concat (map (\<lambda>kv. ''&'' @ pair_text kv)
                     (concat (map (\<lambda>k. map (Pair k) (values_of v k)) ks)))"
proof (induction ks arbitrary: buf)
  case Nil
  show ?case by simp
next
  case (Cons k ks)
  have ne: "Encode_values buf (QueryEscape k) (values_of v k) \<noteq> []"
    using Cons.prems by (simp add: Encode_values_nonempty)
  show ?case
    using Cons.IH [OF ne] Cons.prems
    by (simp add: Encode_values_nonempty map_concat comp_def)
qed

lemma join_amp_Cons: "join_amp (p # ps) = p @ concat (map (\<lambda>q. ''&'' @ q) ps)"
  by (induction ps arbitrary: p) simp_all

lemma Encode_values_empty:
  "Encode_values [] (QueryEscape k) vs = join_amp (map (\<lambda>x. pair_text (k, x)) vs)"
proof (cases vs)
  case Nil
  then show ?thesis by simp
next
  case (Cons x xs)
  then show ?thesis
    by (simp add: Encode_values_nonempty join_amp_Cons pair_text_def comp_def)
qed

lemma Encode_keys_empty:
  "Encode_keys v [] ks =
     join_amp (map pair_text (concat (map (\<lambda>k. map (Pair k) (values_of v k)) ks)))"
proof (induction ks)
  case Nil
  show ?case by simp
next
  case (Cons k ks)
  show ?case
  proof (cases "values_of v k")
    case Nil
    with Cons show ?thesis by simp
  next
    case (Cons x xs)
    have ne: "Encode_values [] (QueryEscape k) (x # xs) \<noteq> []"
      by (simp add: Encode_values_empty join_amp_Cons pair_text_def del: Encode_values.simps)
    show ?thesis
      using Encode_keys_nonempty [OF ne, of v ks] Cons
      by (simp add: Encode_values_empty join_amp_Cons comp_def del: Encode_values.simps)
  qed
qed

lemma Encode_join: "Encode v = join_amp (map pair_text (query_pairs v))"
  by (cases v) (simp_all add: Encode_def query_pairs_def Encode_keys_empty)

lemma Cut_found: "sep \<notin> set a \<Longrightarrow> Cut (a @ sep # b) sep = (a, b, True)"
  by (induction a) auto

lemma Cut_absent: "sep \<notin> set a \<Longrightarrow> Cut a sep = (a, [], False)"
  by (induction a) auto

lemma pair_text_clean: "CHR ''&'' \<notin> set (pair_text kv)" "CHR '';'' \<notin> set (pair_text kv)"
  using QueryEscape_clean [of "CHR ''&''"] QueryEscape_clean [of "CHR '';''"]
  by (auto simp: pair_text_def)

lemma Cut_pair_text: "Cut (pair_text (k, x)) (CHR ''='') = (QueryEscape k, QueryEscape x, True)"
proof -
  have "CHR ''='' \<notin> set (QueryEscape k)"
    using QueryEscape_clean [of "CHR ''=''" k] by auto
  then show ?thesis by (simp add: pair_text_def Cut_found)
qed

lemma parseQuery_piece_amp:
  "parseQuery m err (pair_text (k, x) @ CHR ''&'' # rest) = parseQuery (add_value m k x) err rest"
  by (subst parseQuery.simps)
     (simp add: Cut_found pair_text_clean Contains_def pair_text_nonempty Cut_pair_text
        QueryUnescape_QueryEscape)

lemma parseQuery_Nil: "parseQuery m err [] = (m, err)"
  by (simp add: parseQuery.simps)

lemma parseQuery_piece_last:
  "parseQuery m err (pair_text (k, x)) = (add_value m k x, err)"
  by (subst parseQuery.simps)
     (simp add: Cut_absent pair_text_clean Contains_def pair_text_nonempty Cut_pair_text
        QueryUnescape_QueryEscape parseQuery_Nil)

lemma parseQuery_join:
  "parseQuery m err (join_amp (map pair_text ps)) =
     (foldl (\<lambda>m kv. add_value m (fst kv) (snd kv)) m ps, err)"
proof (induction ps arbitrary: m)
  case Nil
  show ?case by (simp add: parseQuery_Nil)
next
  case (Cons p ps)
  show ?case
  proof (cases ps)
    case Nil
    then show ?thesis using parseQuery_piece_last [of m err "fst p" "snd p"] by simp
  next
    case (Cons q qs)
    then show ?thesis
      using parseQuery_piece_amp [of m err "fst p" "snd p"] Cons.IH by simp
  qed
qed

lemma add_value_new: "k \<notin> fst ` set m \<Longrightarrow> add_value m k x = m @ [(k, [x])]"
  by (induction m) auto

lemma add_value_last: "k \<notin> fst ` set m \<Longrightarrow> add_value (m @ [(k, xs)]) k x = m @ [(k, xs @ [x])]"
  by (induction m) auto

lemma add_values_last:
  "k \<notin> fst ` set m \<Longrightarrow>
   foldl (\<lambda>m kv. add_value m (fst kv) (snd kv)) (m @ [(k, ys)]) (map (Pair k) xs) = m @ [(k, ys @ xs)]"
  by (induction xs arbitrary: ys) (simp_all add: add_value_last)

lemma add_values_new:
  "k \<notin> fst ` set m \<Longrightarrow> xs \<noteq> [] \<Longrightarrow>
   foldl (\<lambda>m kv. add_value m (fst kv) (snd kv)) m (map (Pair k) xs) = m @ [(k, xs)]"
  using add_values_last [of k m "[hd xs]" "tl xs"]
  by (cases xs) (simp_all add: add_value_new)

lemma add_values_keys:
  "distinct ks \<Longrightarrow> set ks \<inter> fst ` set m = {} \<Longrightarrow> \<forall>k \<in> set ks. f k \<noteq> [] \<Longrightarrow>
   foldl (\<lambda>m kv. add_value m (fst kv) (snd kv)) m (concat (map (\<lambda>k. map (Pair k) (f k)) ks)) =
     m @ map (\<lambda>k. (k, f k)) ks"
proof (induction ks arbitrary: m)
  case Nil
  show ?case by simp
next
  case (Cons k ks)
  have k: "k \<notin> fst ` set m" "f k \<noteq> []" using Cons.prems by auto
  have "set ks \<inter> fst ` set (m @ [(k, f k)]) = {}" using Cons.prems by auto
  with Cons.IH [of "m @ [(k, f k)]"] Cons.prems show ?case
    by (simp add: add_values_new [OF k])
qed

lemma values_of_nonempty:
  "\<forall>kv \<in> set v. snd kv \<noteq> [] \<Longrightarrow> k \<in> fst ` set v \<Longrightarrow> values_of v k \<noteq> []"
  by (auto simp: values_of_def split: option.splits dest!: map_of_SomeD simp: map_of_eq_None_iff)

lemma ParseQuery_Encode:
  assumes "distinct (map fst v)" and "\<forall>kv \<in> set v. snd kv \<noteq> []"
  shows "ParseQuery (Encode v) = (map (\<lambda>k. (k, values_of v k)) (sort (map fst v)), None)"
proof -
  have "\<forall>k \<in> set (sort (map fst v)). values_of v k \<noteq> []"
    using values_of_nonempty [OF assms(2)] by simp
  with add_values_keys [of "sort (map fst v)" "[]" "values_of v"] assms(1)
  show ?thesis
    by (simp add: ParseQuery_def Encode_join parseQuery_join query_pairs_def)
qed

lemma map_of_sorted_values:
  assumes "distinct (map fst v)"
  shows "map_of (map (\<lambda>k. (k, values_of v k)) (sort (map fst v))) = map_of v"
proof
  fix k
  show "map_of (map (\<lambda>k. (k, values_of v k)) (sort (map fst v))) k = map_of v k"
  proof (cases "k \<in> fst ` set v")
    case True
    then obtain vs where "map_of v k = Some vs"
      by (cases "map_of v k") (auto simp: map_of_eq_None_iff)
    with True show ?thesis
      by (simp add: map_of_map_restrict restrict_map_def values_of_def)
  next
    case False
    then have "map_of v k = None"
      by (simp add: map_of_eq_None_iff)
    with False show ?thesis
      by (simp add: map_of_map_restrict restrict_map_def)
  qed
qed

subsection \<open>What \<open>Parse\<close> returns\<close>

text \<open>A path is rooted when it is empty or begins with a slash.\<close>

definition rooted :: "string \<Rightarrow> bool" where
  "rooted p \<longleftrightarrow> p = [] \<or> hd p = CHR ''/''"

lemma unescape_rooted: "rooted p \<Longrightarrow> unescape p encodePath = Inr q \<Longrightarrow> rooted q"
  by (cases p) (auto simp: rooted_def split: sum.splits if_splits)

lemma setPath_fields:
  assumes "setPath u p = Inr u'"
  shows "Host u' = Host u" "Opaque u' = Opaque u" "Scheme u' = Scheme u" "User u' = User u"
    "rooted p \<Longrightarrow> rooted (Path u') \<and> rooted (RawPath u')"
  using assms unescape_rooted [of p]
  by (auto simp: setPath_def rooted_def split: sum.splits if_splits)

lemma setFragment_fields:
  assumes "setFragment u f = Inr u'"
  shows "Host u' = Host u" "Opaque u' = Opaque u" "Scheme u' = Scheme u" "User u' = User u"
    "Path u' = Path u" "RawPath u' = RawPath u"
  using assms by (auto simp: setFragment_def split: sum.splits)

lemma rooted_dropWhile: "rooted (dropWhile (\<lambda>c. c \<noteq> CHR ''/'') s)"
  unfolding rooted_def using hd_dropWhile [of "\<lambda>c. c \<noteq> CHR ''/''" s] by auto

lemma parse_rest_host_rooted:
  assumes "parse_rest url rest False = Inr u" and "Host url = []" and "Host u \<noteq> []"
  shows "rooted (Path u) \<and> rooted (RawPath u)"
proof -
  define rest2 where "rest2 = dropWhile (\<lambda>c. c \<noteq> CHR ''/'') (drop 2 rest)"
  define auth where "auth = parseAuthority (takeWhile (\<lambda>c. c \<noteq> CHR ''/'') (drop 2 rest))"
  have p: "parse_rest url rest False =
     (if \<not> HasPrefix rest ''/'' \<and> Scheme url \<noteq> [] then Inr (url\<lparr>Opaque := rest\<rparr>)
      else if \<not> HasPrefix rest ''/'' \<and> Contains (fst (Cut rest (CHR ''/''))) (CHR '':'')
        then Inl FirstPathSegmentColon
      else if (Scheme url \<noteq> [] \<or> \<not> HasPrefix rest ''///'') \<and> HasPrefix rest ''//'' then
        (case auth of Inl e \<Rightarrow> Inl e
         | Inr uh \<Rightarrow> setPath (url\<lparr>User := fst uh, Host := snd uh\<rparr>) rest2)
      else if Scheme url \<noteq> [] \<and> HasPrefix rest ''/''
        then setPath (url\<lparr>OmitHost := True\<rparr>) rest
      else setPath url rest)"
    unfolding parse_rest_def Let_def rest2_def auth_def
    by (simp add: case_prod_beta cong: sum.case_cong)
  show ?thesis
  proof (cases "\<not> HasPrefix rest ''/'' \<and> Scheme url \<noteq> []")
    case True
    with assms(1) p have "u = url\<lparr>Opaque := rest\<rparr>" by simp
    with assms(2,3) show ?thesis by simp
  next
    case c1: False
    show ?thesis
    proof (cases "(Scheme url \<noteq> [] \<or> \<not> HasPrefix rest ''///'') \<and> HasPrefix rest ''//''")
      case True
      with c1 assms(1) p obtain uh where "setPath (url\<lparr>User := fst uh, Host := snd uh\<rparr>) rest2 = Inr u"
        by (cases auth) (simp_all split: if_splits)
      from setPath_fields(5) [OF this] rooted_dropWhile show ?thesis
        by (simp add: rest2_def)
    next
      case c2: False
      show ?thesis
      proof (cases "Scheme url \<noteq> [] \<and> HasPrefix rest ''/''")
        case True
        with c1 c2 assms(1) p have "setPath (url\<lparr>OmitHost := True\<rparr>) rest = Inr u"
          by (simp split: if_splits)
        from setPath_fields(1) [OF this] assms show ?thesis by simp
      next
        case False
        with c1 c2 assms(1) p have "setPath url rest = Inr u"
          by (simp split: if_splits)
        from setPath_fields(1) [OF this] assms show ?thesis by simp
      qed
    qed
  qed
qed

lemma parse_host_rooted:
  assumes "parse raw False = Inr u" and "Host u \<noteq> []"
  shows "rooted (Path u) \<and> rooted (RawPath u)"
proof -
  have ns: "raw \<noteq> ''*''"
    using assms by (auto simp: parse_def empty_URL_def split: if_splits)
  with assms(1) obtain scheme rest where gs: "getScheme raw = Inr (scheme, rest)"
    by (cases "getScheme raw") (auto simp: parse_def split: if_splits)
  have "\<exists>url rest. parse_rest url rest False = Inr u \<and> Host url = []"
  proof (cases "HasSuffix rest ''?'' \<and> Count rest (CHR ''?'') = 1")
    case True
    with assms(1) ns gs
    have "parse_rest (empty_URL\<lparr>Scheme := ToLower scheme, ForceQuery := True\<rparr>)
        (butlast rest) False = Inr u"
      by (simp add: parse_def split: if_splits)
    then show ?thesis by (intro exI conjI) (assumption, simp add: empty_URL_def)
  next
    case False
    with assms(1) ns gs
    have "parse_rest (empty_URL\<lparr>Scheme := ToLower scheme,
        RawQuery := fst (snd (Cut rest (CHR ''?'')))\<rparr>) (fst (Cut rest (CHR ''?''))) False = Inr u"
      by (simp add: parse_def split: if_splits)
    then show ?thesis by (intro exI conjI) (assumption, simp add: empty_URL_def)
  qed
  with assms(2) parse_rest_host_rooted show ?thesis by blast
qed

lemma Parse_host_rooted:
  assumes "Parse raw = Inr u" and "Host u \<noteq> []"
  shows "rooted (Path u) \<and> rooted (RawPath u)"
proof -
  obtain r frag found where c: "Cut raw (CHR ''#'') = (r, frag, found)"
    by (cases "Cut raw (CHR ''#'')") auto
  with assms(1) obtain url where url: "parse r False = Inr url"
    by (cases "parse r False") (auto simp: Parse_def)
  show ?thesis
  proof (cases "frag = []")
    case True
    with assms c url parse_host_rooted [of r u] show ?thesis
      by (simp add: Parse_def)
  next
    case False
    with assms(1) c url have sf: "setFragment url frag = Inr u"
      by (simp add: Parse_def)
    with assms(2) parse_host_rooted [OF url] setFragment_fields [OF sf] show ?thesis
      by simp
  qed
qed

subsection \<open>The path of the composed target\<close>

lemma takeWhile_eq_replicate: "takeWhile (\<lambda>x. x = c) s = replicate (length (takeWhile (\<lambda>x. x = c) s)) c"
  by (induction s) auto

lemma TrimLeft_decomp: "\<exists>n. s = replicate n c @ TrimLeft s c"
proof -
  have "s = takeWhile (\<lambda>x. x = c) s @ TrimLeft s c"
    by (simp add: TrimLeft_def)
  with takeWhile_eq_replicate [of c s] show ?thesis by metis
qed

lemma HasPrefix_single: "HasPrefix s [c] \<longleftrightarrow> s \<noteq> [] \<and> hd s = c"
  by (cases s) (auto simp: HasPrefix_def)

lemma HasSuffix_single: "HasSuffix s [c] \<longleftrightarrow> s \<noteq> [] \<and> last s = c"
proof (cases s rule: rev_cases)
  case Nil
  then show ?thesis by (simp add: HasSuffix_def)
next
  case (snoc xs x)
  then show ?thesis by (auto simp: HasSuffix_def)
qed

lemma TrimLeft_no_lead: "\<not> HasPrefix (TrimLeft s c) [c]"
  using hd_dropWhile [of "\<lambda>x. x = c" s]
  by (auto simp: TrimLeft_def HasPrefix_single)

lemma TrimRight_decomp: "\<exists>n. s = TrimRight s c @ replicate n c"
proof -
  obtain n where "rev s = replicate n c @ TrimLeft (rev s) c"
    using TrimLeft_decomp by blast
  then have "rev (rev s) = rev (replicate n c @ TrimLeft (rev s) c)" by simp
  then have "s = TrimRight s c @ replicate n c"
    by (simp add: TrimRight_def TrimLeft_def)
  then show ?thesis ..
qed

lemma TrimRight_no_trail: "\<not> HasSuffix (TrimRight s c) [c]"
  using hd_dropWhile [of "\<lambda>x. x = c" "rev s"]
  by (auto simp: TrimRight_def HasSuffix_single last_rev)

lemma Path_resolved:
  "Path (resolved base path params) =
     TrimRight (Path base) (CHR ''/'') @ ''/'' @ TrimLeft path (CHR ''/'')"
  by (simp add: resolved_def Let_def)

lemma resolved_fields:
  "Scheme (resolved base path params) = Scheme base"
  "Opaque (resolved base path params) = Opaque base"
  "Host (resolved base path params) = Host base"
  "User (resolved base path params) = User base"
  "RawPath (resolved base path params) = RawPath base"
  "OmitHost (resolved base path params) = OmitHost base"
  by (simp_all add: resolved_def Let_def)

lemma TrimRight_rooted: "rooted p \<Longrightarrow> rooted (TrimRight p c)"
proof -
  assume r: "rooted p"
  obtain n where n: "p = TrimRight p c @ replicate n c" using TrimRight_decomp by blast
  show ?thesis
  proof (cases "TrimRight p c")
    case Nil
    then show ?thesis by (simp add: rooted_def)
  next
    case (Cons x xs)
    with n have "hd p = x" by (metis append_Cons list.sel(1))
    with r n Cons show ?thesis by (auto simp: rooted_def)
  qed
qed

lemma merged_rooted:
  assumes "rooted (Path base)"
  shows "Path (resolved base path params) \<noteq> [] \<and> hd (Path (resolved base path params)) = CHR ''/''"
  using TrimRight_rooted [OF assms, of "CHR ''/''"]
  by (cases "TrimRight (Path base) (CHR ''/'')") (auto simp: Path_resolved rooted_def)

lemma EscapedPath_rooted:
  assumes "rooted (Path base)" and "rooted (RawPath base)"
  shows "hd (EscapedPath (resolved base path params)) = CHR ''/''"
proof -
  let ?r = "resolved base path params"
  obtain cs where p: "Path ?r = CHR ''/'' # cs"
    using merged_rooted [OF assms(1), of path params] by (cases "Path ?r") auto
  have "escape (Path ?r) encodePath = CHR ''/'' # escape cs encodePath"
    by (simp add: p escape_def escape_byte_def shouldEscape_def less_eq_char_def)
  moreover have "Path ?r \<noteq> ''*''" using p by simp
  ultimately show ?thesis
    using assms(2) by (auto simp: EscapedPath_def resolved_fields rooted_def)
qed

text \<open>
  What \<open>URL_String\<close> writes before the path of a URL that is not opaque: the scheme, the
  authority and, for a reference with neither whose first path segment holds a colon,
  the mark \<open>./\<close>.
\<close>

definition before_path :: "URL \<Rightarrow> string" where
  "before_path u =
     (if Scheme u \<noteq> [] then Scheme u @ '':'' else []) @ String_authority u @
     (if Scheme u = [] \<and> String_authority u = [] \<and>
         Contains (fst (Cut (EscapedPath u) (CHR ''/''))) (CHR '':'')
      then ''./'' else [])"

lemma String_hier_parsed:
  assumes "Parse raw = Inr base" and "Opaque base = []"
  shows "String_hier (resolved base path params) =
     before_path (resolved base path params) @ EscapedPath (resolved base path params)"
proof -
  let ?r = "resolved base path params"
  have "Host base \<noteq> [] \<Longrightarrow> hd (EscapedPath ?r) = CHR ''/''"
    using Parse_host_rooted [OF assms(1)] EscapedPath_rooted by blast
  then show ?thesis
    using assms(2)
    by (auto simp: String_hier_def before_path_def Let_def resolved_fields)
qed

text \<open>
  The path that \<open>buildURL\<close> assigns to the resolved URL is the base path without its
  trailing slashes, one slash, and the resource path without its leading slashes,
  whatever the base; with an empty base path that is a slash and the cleaned resource
  path. What is cut from either side is slashes only, and the base path prefix is kept.
  For a base that \<open>Parse\<close> returns and that is not opaque, the text that \<open>URL_String\<close>
  writes is what stands before the path, then the percent-encoded form of that path,
  which unescapes to it, then query and fragment.
\<close>

lemma assigned_path_merge:
  "Path (resolved base path params) =
     TrimRight (Path base) (CHR ''/'') @ ''/'' @ TrimLeft path (CHR ''/'') \<and>
   (\<exists>n. Path base = TrimRight (Path base) (CHR ''/'') @ replicate n (CHR ''/'')) \<and>
   \<not> HasSuffix (TrimRight (Path base) (CHR ''/'')) ''/'' \<and>
   (\<exists>n. path = replicate n (CHR ''/'') @ TrimLeft path (CHR ''/'')) \<and>
   \<not> HasPrefix (TrimLeft path (CHR ''/'')) ''/'' \<and>
   (Parse raw = Inr base \<and> Opaque base = [] \<longrightarrow>
      buildURL (Some base) path params =
        Inr (before_path (resolved base path params) @ EscapedPath (resolved base path params) @
             String_query (resolved base path params) @
             String_fragment (resolved base path params)) \<and>
      unescape (EscapedPath (resolved base path params)) encodePath =
        Inr (TrimRight (Path base) (CHR ''/'') @ ''/'' @ TrimLeft path (CHR ''/'')))"
proof (intro conjI impI)
  show "Path (resolved base path params) =
     TrimRight (Path base) (CHR ''/'') @ ''/'' @ TrimLeft path (CHR ''/'')"
    by (rule Path_resolved)
  show "\<exists>n. Path base = TrimRight (Path base) (CHR ''/'') @ replicate n (CHR ''/'')"
    by (rule TrimRight_decomp)
  show "\<not> HasSuffix (TrimRight (Path base) (CHR ''/'')) ''/''"
    by (rule TrimRight_no_trail)
  show "\<exists>n. path = replicate n (CHR ''/'') @ TrimLeft path (CHR ''/'')"
    by (rule TrimLeft_decomp)
  show "\<not> HasPrefix (TrimLeft path (CHR ''/'')) ''/''"
    by (rule TrimLeft_no_lead)
next
  assume a: "Parse raw = Inr base \<and> Opaque base = []"
  then show "buildURL (Some base) path params =
        Inr (before_path (resolved base path params) @ EscapedPath (resolved base path params) @
             String_query (resolved base path params) @
             String_fragment (resolved base path params))"
    using String_hier_parsed [of raw base path params]
    by (simp add: buildURL_def URL_String_def)
  show "unescape (EscapedPath (resolved base path params)) encodePath =
        Inr (TrimRight (Path base) (CHR ''/'') @ ''/'' @ TrimLeft path (CHR ''/''))"
    by (simp add: unescape_EscapedPath Path_resolved)
qed

lemma assigned_path_merge_example:
  "Parse ''https://v6.db.transport.rest/api/'' =
     Inr (empty_URL\<lparr>Scheme := ''https'', Host := ''v6.db.transport.rest'', Path := ''/api/''\<rparr>) \<and>
   buildURL (Some (empty_URL\<lparr>Scheme := ''https'', Host := ''v6.db.transport.rest'',
       Path := ''/api/''\<rparr>)) ''/locations'' [] =
     Inr ''https://v6.db.transport.rest/api/locations'' \<and>
   unescape ''/api/locations'' encodePath = Inr ''/api/locations''"
proof -
  let ?b = "empty_URL\<lparr>Scheme := ''https'', Host := ''v6.db.transport.rest'', Path := ''/api/''\<rparr>"
  have p: "Parse ''https://v6.db.transport.rest/api/'' = Inr ?b"
    by code_simp
  have o: "Opaque ?b = []"
    by code_simp
  have b: "before_path (resolved ?b ''/locations'' []) = ''https://v6.db.transport.rest''"
    by code_simp
  have e: "EscapedPath (resolved ?b ''/locations'' []) = ''/api/locations''"
    by code_simp
  have q: "String_query (resolved ?b ''/locations'' []) = []"
    by code_simp
  have f: "String_fragment (resolved ?b ''/locations'' []) = []"
    by code_simp
  have t: "TrimRight (Path ?b) (CHR ''/'') @ ''/'' @ TrimLeft ''/locations'' (CHR ''/'') = ''/api/locations''"
    by code_simp
  from assigned_path_merge [of ?b "''/locations''" "[]" "''https://v6.db.transport.rest/api/''"] p o
  have "buildURL (Some ?b) ''/locations'' [] =
        Inr (before_path (resolved ?b ''/locations'' []) @ EscapedPath (resolved ?b ''/locations'' []) @
             String_query (resolved ?b ''/locations'' []) @
             String_fragment (resolved ?b ''/locations'' [])) \<and>
      unescape (EscapedPath (resolved ?b ''/locations'' [])) encodePath =
        Inr (TrimRight (Path ?b) (CHR ''/'') @ ''/'' @ TrimLeft ''/locations'' (CHR ''/''))"
    by blast
  then show ?thesis
    unfolding b e q f t using p by simp
qed

text \<open>
  An opaque URL is written as its scheme and its opaque text. \<open>URL_String\<close> does not
  read the path of such a URL, so for an opaque base the composed target is the same for
  every resource path.
\<close>

lemma buildURL_opaque:
  assumes "Opaque base \<noteq> []"
  shows "buildURL (Some base) path params =
           Inr ((if Scheme base \<noteq> [] then Scheme base @ '':'' else []) @ Opaque base @
                String_query (resolved base path params) @
                String_fragment (resolved base path params))"
    and "buildURL (Some base) path params = buildURL (Some base) path' params"
  using assms
  by (simp_all add: buildURL_def URL_String_def String_hier_def String_query_def
      String_fragment_def EscapedFragment_def resolved_def Let_def)

text \<open>
  Claim C2. The claim is that for every base the path of the composed target is the base
  path without trailing slashes, a slash, and the resource path without leading slashes.
  The code assigns that path and then loses it: the base \<open>localhost:8080\<close> parses as the
  scheme \<open>localhost\<close> with the opaque text \<open>8080\<close>, \<open>NewClient\<close> accepts it, the resolved
  URL gets the path \<open>/locations\<close> for the resource \<open>/locations\<close>, and the target that
  \<^verbatim>\<open>URL\<close> returns is \<open>localhost:8080\<close>, in which there is no resource path. The
  comment of \<^verbatim>\<open>URL\<close> promises the fully qualified URL for the given path.
\<close>

theorem buildURL_opaque_base:
  "Parse ''localhost:8080'' = Inr (empty_URL\<lparr>Scheme := ''localhost'', Opaque := ''8080''\<rparr>) \<and>
   Path (resolved (empty_URL\<lparr>Scheme := ''localhost'', Opaque := ''8080''\<rparr>) ''/locations'' [])
     = ''/locations'' \<and>
   (case NewClient \<lparr>BaseURL = ''localhost:8080'', Timeout = 0, UserAgent = []\<rparr> of
      Inl err \<Rightarrow> Inl err
    | Inr c \<Rightarrow> Client_URL c ''/locations'' []) = Inr ''localhost:8080''"
  by code_simp

subsection \<open>The query string of the composed target\<close>

lemma sorted_pairs_keys:
  "sorted ks \<Longrightarrow> sorted (map fst (concat (map (\<lambda>k. map (Pair k) (f k)) ks)))"
proof (induction ks)
  case Nil
  show ?case by simp
next
  case (Cons k ks)
  then have "\<forall>x \<in> set ks. k \<le> x" by simp
  moreover have "sorted (map (\<lambda>x. k) (f k))"
    by (simp add: map_replicate_const)
  ultimately show ?case
    using Cons by (auto simp: sorted_append comp_def)
qed

lemma sorted_query_pairs: "sorted (map fst (query_pairs v))"
  unfolding query_pairs_def by (rule sorted_pairs_keys) simp

lemma Encode_nonempty:
  assumes "v \<noteq> []" and "\<forall>kv \<in> set v. snd kv \<noteq> []"
  shows "Encode v \<noteq> []"
proof -
  obtain k vs where "(k, vs) \<in> set v" using assms(1) by (cases v) auto
  then have "k \<in> set (sort (map fst v))" and "values_of v k \<noteq> []"
    using values_of_nonempty [OF assms(2), of k] by force+
  then have "query_pairs v \<noteq> []"
    by (auto simp: query_pairs_def)
  then show ?thesis
    by (cases "query_pairs v") (simp_all add: Encode_join join_amp_Cons pair_text_nonempty)
qed

lemma escape_byte_safe:
  "x \<in> set (escape_byte encodeQueryComponent c) \<Longrightarrow>
   \<not> shouldEscape x encodeQueryComponent \<or> x = CHR ''%'' \<or> x = CHR ''+''"
proof -
  have h: "\<forall>n \<in> set [0..<16]. \<not> shouldEscape (upperhex ! n) encodeQueryComponent"
    by code_simp
  have d: "byte_of c div 16 < 16" "byte_of c mod 16 < 16"
    using byte_of_less [of c] by auto
  assume "x \<in> set (escape_byte encodeQueryComponent c)"
  with h d show ?thesis
    by (auto simp: escape_byte_def split: if_splits)
qed

lemma QueryEscape_safe:
  "x \<in> set (QueryEscape s) \<Longrightarrow>
   \<not> shouldEscape x encodeQueryComponent \<or> x = CHR ''%'' \<or> x = CHR ''+''"
  unfolding QueryEscape_def escape_def using escape_byte_safe by auto

text \<open>
  The query of the composed target. For a parameter set with distinct keys and no empty
  value list that is not empty, the composed target is the part before the query, then \<open>?\<close>,
  then \<open>Encode params\<close>, then the fragment of the base if it has one. \<open>Encode params\<close> is
  not empty; it is the pairs \<open>key=value\<close> joined by \<open>&\<close>, both sides escaped, in sorted
  key order; parsing it back gives every key, in sorted order, with its values and no
  error, which as a map is the parameter set. For an empty parameter set the target has
  no query when the base was not parsed from a URL that ends in a bare \<open>?\<close>; when it was
  (\<open>ForceQuery\<close>), the target has the query mark \<open>?\<close> with nothing after it. Every byte of
  an escaped key or value is an unreserved byte, \<open>%\<close> or \<open>+\<close>.
\<close>

lemma composed_query:
  "(params \<noteq> [] \<and> distinct (map fst params) \<and> (\<forall>kv \<in> set params. snd kv \<noteq> []) \<longrightarrow>
      buildURL (Some base) path params =
        Inr (String_hier (resolved base path params) @ ''?'' @ Encode params @
             String_fragment (resolved base path params)) \<and>
      Encode params \<noteq> [] \<and>
      Encode params = join_amp (map pair_text (query_pairs params)) \<and>
      sorted (map fst (query_pairs params)) \<and>
      ParseQuery (Encode params) =
        (map (\<lambda>k. (k, values_of params k)) (sort (map fst params)), None) \<and>
      map_of (fst (ParseQuery (Encode params))) = map_of params) \<and>
   (params = [] \<and> \<not> ForceQuery base \<longrightarrow>
      buildURL (Some base) path params =
        Inr (String_hier (resolved base path params) @ String_fragment (resolved base path params))) \<and>
   (params = [] \<and> ForceQuery base \<longrightarrow>
      buildURL (Some base) path params =
        Inr (String_hier (resolved base path params) @ ''?'' @
             String_fragment (resolved base path params))) \<and>
   (\<forall>x \<in> set (QueryEscape s).
      \<not> shouldEscape x encodeQueryComponent \<or> x = CHR ''%'' \<or> x = CHR ''+'')"
proof (intro conjI impI ballI)
  assume a: "params \<noteq> [] \<and> distinct (map fst params) \<and> (\<forall>kv \<in> set params. snd kv \<noteq> [])"
  then have ne: "Encode params \<noteq> []" by (simp add: Encode_nonempty)
  from a have rq: "RawQuery (resolved base path params) = Encode params"
    by (simp add: resolved_def Let_def)
  show "buildURL (Some base) path params =
        Inr (String_hier (resolved base path params) @ ''?'' @ Encode params @
             String_fragment (resolved base path params))"
    using ne rq by (simp add: buildURL_def URL_String_def String_query_def)
  show "Encode params \<noteq> []" by (rule ne)
  show "Encode params = join_amp (map pair_text (query_pairs params))" by (rule Encode_join)
  show "sorted (map fst (query_pairs params))" by (rule sorted_query_pairs)
  show pq: "ParseQuery (Encode params) =
        (map (\<lambda>k. (k, values_of params k)) (sort (map fst params)), None)"
    using a by (simp add: ParseQuery_Encode)
  show "map_of (fst (ParseQuery (Encode params))) = map_of params"
    using a by (simp add: pq map_of_sorted_values)
next
  assume "params = [] \<and> \<not> ForceQuery base"
  then show "buildURL (Some base) path params =
        Inr (String_hier (resolved base path params) @ String_fragment (resolved base path params))"
    by (simp add: buildURL_def URL_String_def String_query_def resolved_def Let_def)
next
  assume "params = [] \<and> ForceQuery base"
  then show "buildURL (Some base) path params =
        Inr (String_hier (resolved base path params) @ ''?'' @
             String_fragment (resolved base path params))"
    by (simp add: buildURL_def URL_String_def String_query_def resolved_def Let_def)
next
  fix x assume "x \<in> set (QueryEscape s)"
  then show "\<not> shouldEscape x encodeQueryComponent \<or> x = CHR ''%'' \<or> x = CHR ''+''"
    by (rule QueryEscape_safe)
qed

lemma composed_query_example:
  "buildURL (Some (empty_URL\<lparr>Scheme := ''https'', Host := ''v6.db.transport.rest''\<rparr>))
     ''/locations'' [(''results'', [''5'']), (''query'', [''berlin hbf''])] =
     Inr ''https://v6.db.transport.rest/locations?query=berlin+hbf&results=5'' \<and>
   ParseQuery ''query=berlin+hbf&results=5'' =
     ([(''query'', [''berlin hbf'']), (''results'', [''5''])], None) \<and>
   buildURL (Some (empty_URL\<lparr>Scheme := ''https'', Host := ''v6.db.transport.rest''\<rparr>))
     ''/locations'' [] = Inr ''https://v6.db.transport.rest/locations''"
proof -
  let ?b = "empty_URL\<lparr>Scheme := ''https'', Host := ''v6.db.transport.rest''\<rparr>"
  let ?ps = "[(''results'', [''5'']), (''query'', [''berlin hbf''])]"
  have h: "?ps \<noteq> [] \<and> distinct (map fst ?ps) \<and> (\<forall>kv \<in> set ?ps. snd kv \<noteq> [])"
    by simp
  have e: "Encode ?ps = ''query=berlin+hbf&results=5''"
    by code_simp
  have s: "String_hier (resolved ?b ''/locations'' ?ps) = ''https://v6.db.transport.rest/locations''"
    "String_hier (resolved ?b ''/locations'' []) = ''https://v6.db.transport.rest/locations''"
    by code_simp+
  have f: "String_fragment (resolved ?b ''/locations'' ?ps) = []"
    "String_fragment (resolved ?b ''/locations'' []) = []"
    by code_simp+
  have v: "map (\<lambda>k. (k, values_of ?ps k)) (sort (map fst ?ps)) =
      [(''query'', [''berlin hbf'']), (''results'', [''5''])]"
    by code_simp
  have nf: "\<not> ForceQuery ?b"
    by code_simp
  from composed_query [of ?ps ?b "''/locations''"] h
  have 1: "buildURL (Some ?b) ''/locations'' ?ps =
        Inr (String_hier (resolved ?b ''/locations'' ?ps) @ ''?'' @ Encode ?ps @
             String_fragment (resolved ?b ''/locations'' ?ps))"
    and 2: "ParseQuery (Encode ?ps) = (map (\<lambda>k. (k, values_of ?ps k)) (sort (map fst ?ps)), None)"
    by blast+
  from composed_query [of "[]" ?b "''/locations''"] nf
  have 3: "buildURL (Some ?b) ''/locations'' [] =
        Inr (String_hier (resolved ?b ''/locations'' []) @ String_fragment (resolved ?b ''/locations'' []))"
    by blast
  from 1 2 3 show ?thesis
    unfolding e s f v by simp
qed

text \<open>
  Claim C3. The claim is that a non-empty parameter set is written as a sorted,
  percent-encoded query that decodes back to the set, which holds, and that for an empty
  set the target has no query mark at all, which the code attempts and misses. For an
  empty set \<open>buildURL\<close> clears \<open>RawQuery\<close>, but the copy of the base keeps the flag
  \<open>ForceQuery\<close>, which \<open>Parse\<close> sets for a URL that ends in a bare \<open>?\<close>, and \<open>URL_String\<close>
  writes the mark for it: with the base \<open>https://v6.db.transport.rest?\<close>, which
  \<open>NewClient\<close> accepts, and no parameters, the query of the resolved URL is empty and the
  composed target ends in \<open>?\<close>.
\<close>

theorem buildURL_empty_query_mark:
  "map_sum id ForceQuery (Parse ''https://v6.db.transport.rest?'') = Inr True \<and>
   map_sum id (\<lambda>base. RawQuery (resolved base ''/locations'' []))
     (Parse ''https://v6.db.transport.rest?'') = Inr [] \<and>
   (case NewClient \<lparr>BaseURL = ''https://v6.db.transport.rest?'', Timeout = 0, UserAgent = []\<rparr> of
      Inl err \<Rightarrow> Inl err
    | Inr c \<Rightarrow> Client_URL c ''/locations'' []) =
   Inr ''https://v6.db.transport.rest/locations?''"
  by code_simp

subsection \<open>Constructing the client\<close>

text \<open>A string that begins with an ASCII letter is not blank.\<close>

definition ascii_letter :: "char \<Rightarrow> bool" where
  "ascii_letter c \<longleftrightarrow> (CHR ''a'' \<le> c \<and> c \<le> CHR ''z'') \<or> (CHR ''A'' \<le> c \<and> c \<le> CHR ''Z'')"

lemma ascii_letter_byte: "ascii_letter c \<Longrightarrow> byte_of c < RuneSelf \<and> \<not> asciiSpace c \<and> \<not> IsSpace (byte_of c)"
  by (auto simp: ascii_letter_def less_eq_char_def byte_of_def RuneSelf_def asciiSpace_def IsSpace_def)

lemma DecodeRune_ascii: "s \<noteq> [] \<Longrightarrow> byte_of (hd s) < RuneSelf \<Longrightarrow> DecodeRune s = (byte_of (hd s), 1)"
  by (cases s) (simp_all add: DecodeRune_def Let_def)

lemma back_to_start_nonneg: "- 1 \<le> start \<Longrightarrow> - 1 \<le> back_to_start s start lim"
  by (induction s start lim rule: back_to_start.induct)
     (subst back_to_start.simps, auto)

lemma DecodeLastRune_cases:
  assumes "t \<noteq> []"
  shows "DecodeLastRune t = (byte_of (last t), 1) \<and> byte_of (last t) < RuneSelf \<or>
         DecodeLastRune t = (RuneError, 1) \<or>
         (\<exists>start. start < length t \<and> DecodeLastRune t = DecodeRune (drop start t) \<and>
            start + snd (DecodeRune (drop start t)) = length t)"
proof (cases "byte_of (last t) < RuneSelf")
  case True
  with assms show ?thesis
    by (simp add: DecodeLastRune_def Let_def last_conv_nth nat_diff_distrib')
next
  case False
  define lim where "lim = (if int (length t) - 4 < 0 then 0 else int (length t) - 4)"
  define start0 where "start0 = back_to_start t (int (length t) - 2) lim"
  define start where "start = (if start0 < 0 then 0 else start0)"
  have "start0 \<le> int (length t) - 2"
    unfolding start0_def by (rule back_to_start_le)
  with assms have lt: "nat start < length t" "0 \<le> start"
    by (cases t; auto simp: start_def)+
  have eq: "DecodeLastRune t =
    (case DecodeRune (drop (nat start) t) of (r, width) \<Rightarrow>
       if start + int width \<noteq> int (length t) then (RuneError, 1) else (r, width))"
    using False assms
    by (simp add: DecodeLastRune_def Let_def last_conv_nth nat_diff_distrib' lim_def start0_def start_def)
  show ?thesis
  proof (cases "start + int (snd (DecodeRune (drop (nat start) t))) = int (length t)")
    case True
    with eq lt have "nat start < length t \<and> DecodeLastRune t = DecodeRune (drop (nat start) t) \<and>
        nat start + snd (DecodeRune (drop (nat start) t)) = length t"
      by (auto split: prod.splits)
    then show ?thesis by blast
  next
    case False
    with eq show ?thesis by (auto split: prod.splits)
  qed
qed

lemma DecodeLastRune_width_le: "snd (DecodeLastRune t) \<le> length t"
proof (cases "t = []")
  case True
  then show ?thesis by (simp add: DecodeLastRune_def)
next
  case False
  from DecodeLastRune_cases [OF this] show ?thesis
    using False by (auto simp: Suc_le_eq)
qed

lemma RuneError_not_space: "\<not> IsSpace RuneError"
  by (simp add: IsSpace_def RuneError_def)

lemma DecodeLastRune_letter_first:
  assumes "t \<noteq> []" and "ascii_letter (hd t)" and "IsSpace (fst (DecodeLastRune t))"
  shows "snd (DecodeLastRune t) < length t"
proof -
  from DecodeLastRune_cases [OF assms(1)]
  consider (a) "DecodeLastRune t = (byte_of (last t), 1)"
    | (b) "DecodeLastRune t = (RuneError, 1)"
    | (c) start where "start < length t" "DecodeLastRune t = DecodeRune (drop start t)"
        "start + snd (DecodeRune (drop start t)) = length t"
    by blast
  then show ?thesis
  proof cases
    case a
    show ?thesis
    proof (cases "length t = 1")
      case True
      then have "last t = hd t" by (cases t) auto
      with a assms ascii_letter_byte show ?thesis by auto
    next
      case False
      with assms(1) a show ?thesis by (cases t) auto
    qed
  next
    case b
    with assms(3) RuneError_not_space show ?thesis by simp
  next
    case c
    show ?thesis
    proof (cases "start = 0")
      case True
      with c assms DecodeRune_ascii [of t] ascii_letter_byte [of "hd t"] show ?thesis
        by auto
    next
      case False
      with c have "snd (DecodeLastRune t) = length t - start" by simp
      with False c(1) show ?thesis by simp
    qed
  qed
qed

lemma lastIndexFunc_letter_first_gen:
  "0 < i \<Longrightarrow> i \<le> length s \<Longrightarrow> ascii_letter (hd s) \<Longrightarrow> f = IsSpace \<Longrightarrow>
   0 \<le> lastIndexFunc s f i"
proof (induction s f i rule: lastIndexFunc.induct)
  case (1 s f i)
  obtain r w where d: "DecodeLastRune (take i s) = (r, w)"
    by (cases "DecodeLastRune (take i s)") auto
  have ne: "take i s \<noteq> []" and hd: "hd (take i s) = hd s"
    using "1.prems" by (cases s; auto)+
  have wle: "w \<le> i"
    using DecodeLastRune_width_le [of "take i s"] d "1.prems" by simp
  show ?case
  proof (cases "IsSpace r")
    case False
    with "1.prems" d wle show ?thesis
      by (subst lastIndexFunc.simps) simp
  next
    case True
    have "w < i"
      using DecodeLastRune_letter_first [OF ne] hd "1.prems" d True by simp
    moreover have "0 \<le> lastIndexFunc s f (i - w)"
      using "1.IH" [OF _ d [symmetric]] "1.prems" True \<open>w < i\<close> by simp
    ultimately show ?thesis
      using "1.prems" d True by (subst lastIndexFunc.simps) simp
  qed
qed

lemma lastIndexFunc_letter_first:
  "0 < i \<Longrightarrow> i \<le> length s \<Longrightarrow> ascii_letter (hd s) \<Longrightarrow> 0 \<le> lastIndexFunc s IsSpace i"
  by (rule lastIndexFunc_letter_first_gen) simp_all

lemma TrimRightFunc_letter_first:
  assumes "s \<noteq> []" and "ascii_letter (hd s)"
  shows "TrimRightFunc s IsSpace \<noteq> []"
proof -
  define i where "i = lastIndexFunc s IsSpace (length s)"
  have i0: "0 \<le> i"
    unfolding i_def using assms by (intro lastIndexFunc_letter_first) auto
  have "\<not> RuneSelf \<le> byte_of (s ! 0)"
    using assms ascii_letter_byte [of "hd s"] by (cases s) auto
  then have "0 < (if 0 \<le> i \<and> RuneSelf \<le> byte_of (s ! nat i)
               then i + int (snd (DecodeRune (drop (nat i) s))) else i + 1)"
    using i0 by (cases "i = 0") auto
  with assms(1) show ?thesis
    by (simp add: TrimRightFunc_def Let_def i_def [symmetric])
qed

lemma TrimSpace_stop_letter_first:
  "s \<noteq> [] \<Longrightarrow> ascii_letter (hd s) \<Longrightarrow> TrimSpace_stop s \<noteq> []"
proof (induction s rule: TrimSpace_stop.induct)
  case (1 s)
  show ?case
  proof (cases "RuneSelf \<le> byte_of (last s)")
    case True
    with "1.prems" TrimRightFunc_letter_first show ?thesis
      by (subst TrimSpace_stop.simps) simp
  next
    case False
    show ?thesis
    proof (cases "asciiSpace (last s)")
      case sp: True
      have "butlast s \<noteq> []"
      proof
        assume "butlast s = []"
        with "1.prems" have "last s = hd s" by (cases s) (auto split: if_splits)
        with sp "1.prems" ascii_letter_byte show False by auto
      qed
      moreover from this have "hd (butlast s) = hd s"
        by (cases s) (auto split: if_splits)
      ultimately show ?thesis
        using "1.IH" [OF "1.prems"(1) False sp] "1.prems" False sp
        by (subst TrimSpace_stop.simps) simp
    next
      case nsp: False
      with False "1.prems" show ?thesis
        by (subst TrimSpace_stop.simps) simp
    qed
  qed
qed

lemma TrimSpace_letter_first: "s \<noteq> [] \<Longrightarrow> ascii_letter (hd s) \<Longrightarrow> TrimSpace s \<noteq> []"
  using TrimSpace_stop_letter_first [of s] ascii_letter_byte [of "hd s"]
  by (cases s) auto

lemma getScheme_letter_first:
  assumes "getScheme raw = Inr (scheme, rest)" and "scheme \<noteq> []"
  shows "raw \<noteq> [] \<and> ascii_letter (hd raw)"
  using assms
  by (cases raw) (auto simp: getScheme_def ascii_letter_def split: if_splits)


lemma parse_rest_Scheme: "parse_rest url rest v = Inr u \<Longrightarrow> Scheme u = Scheme url"
proof -
  assume p: "parse_rest url rest v = Inr u"
  define rest2 where "rest2 = dropWhile (\<lambda>c. c \<noteq> CHR ''/'') (drop 2 rest)"
  define auth where "auth = parseAuthority (takeWhile (\<lambda>c. c \<noteq> CHR ''/'') (drop 2 rest))"
  have "u = url\<lparr>Opaque := rest\<rparr> \<or>
        (\<exists>uh. setPath (url\<lparr>User := fst uh, Host := snd uh\<rparr>) rest2 = Inr u) \<or>
        setPath (url\<lparr>OmitHost := True\<rparr>) rest = Inr u \<or> setPath url rest = Inr u"
    using p unfolding parse_rest_def Let_def rest2_def [symmetric] auth_def [symmetric]
    by (cases auth) (auto simp: case_prod_beta split: if_splits)
  then show ?thesis
    by (auto dest: setPath_fields(3))
qed


lemma parse_Scheme_letter_first:
  assumes "parse raw False = Inr u" and "Scheme u \<noteq> []"
  shows "raw \<noteq> [] \<and> ascii_letter (hd raw)"
proof -
  have ns: "raw \<noteq> ''*''"
    using assms by (auto simp: parse_def empty_URL_def split: if_splits)
  with assms(1) obtain scheme rest where gs: "getScheme raw = Inr (scheme, rest)"
    by (cases "getScheme raw") (auto simp: parse_def split: if_splits)
  have "\<exists>url rest. parse_rest url rest False = Inr u \<and> Scheme url = ToLower scheme"
  proof (cases "HasSuffix rest ''?'' \<and> Count rest (CHR ''?'') = 1")
    case True
    with assms(1) ns gs
    have "parse_rest (empty_URL\<lparr>Scheme := ToLower scheme, ForceQuery := True\<rparr>)
        (butlast rest) False = Inr u"
      by (simp add: parse_def split: if_splits)
    then show ?thesis by (intro exI conjI) (assumption, simp)
  next
    case False
    with assms(1) ns gs
    have "parse_rest (empty_URL\<lparr>Scheme := ToLower scheme,
        RawQuery := fst (snd (Cut rest (CHR ''?'')))\<rparr>) (fst (Cut rest (CHR ''?''))) False = Inr u"
      by (simp add: parse_def split: if_splits)
    then show ?thesis by (intro exI conjI) (assumption, simp)
  qed
  with assms(2) parse_rest_Scheme have "ToLower scheme \<noteq> []" by fastforce
  then have "scheme \<noteq> []" by (auto simp: ToLower_def)
  with gs show ?thesis by (rule getScheme_letter_first)
qed


lemma Cut_before_hd: "Cut s sep = (b, a, f) \<Longrightarrow> b \<noteq> [] \<Longrightarrow> s \<noteq> [] \<and> hd s = hd b"
  by (cases s) (auto split: if_splits prod.splits)


lemma Parse_Scheme_letter_first:
  assumes "Parse raw = Inr u" and "Scheme u \<noteq> []"
  shows "raw \<noteq> [] \<and> ascii_letter (hd raw)"
proof -
  obtain r frag found where c: "Cut raw (CHR ''#'') = (r, frag, found)"
    by (cases "Cut raw (CHR ''#'')") auto
  with assms(1) obtain url where url: "parse r False = Inr url"
    by (cases "parse r False") (auto simp: Parse_def)
  have "Scheme url = Scheme u"
  proof (cases "frag = []")
    case True
    with assms c url show ?thesis by (simp add: Parse_def)
  next
    case False
    with assms(1) c url have "setFragment url frag = Inr u" by (simp add: Parse_def)
    from setFragment_fields(3) [OF this] show ?thesis by simp
  qed
  with assms(2) parse_Scheme_letter_first [OF url] have "r \<noteq> [] \<and> ascii_letter (hd r)"
    by simp
  with Cut_before_hd [OF c] show ?thesis by auto
qed


text \<open>\<^verbatim>\<open>func (u *URL) IsAbs() bool\<close>: the URL is absolute when it has a scheme.\<close>


definition IsAbs :: "URL \<Rightarrow> bool" where
  "IsAbs u \<longleftrightarrow> Scheme u \<noteq> []"


lemma absolute_not_blank: "Parse raw = Inr u \<Longrightarrow> IsAbs u \<Longrightarrow> TrimSpace raw \<noteq> []"
  using Parse_Scheme_letter_first [of raw u] TrimSpace_letter_first [of raw]
  by (simp add: IsAbs_def)


text \<open>
  Claim C6, as the code has it. \<open>NewClient\<close> succeeds exactly when the base is not blank
  and parses as a URL, absolute or not. It succeeds whenever the base parses as an
  absolute URL, since such a base begins with a letter and is not blank. The client it
  returns holds the parsed base and composes a target for every path and parameter set.
  When it fails, the error is one of the two configuration errors: the base is blank, or
  it does not parse.
\<close>

theorem NewClient_outcome:
  "((\<exists>c. NewClient cfg = Inr c) \<longleftrightarrow>
      TrimSpace (BaseURL cfg) \<noteq> [] \<and> (\<exists>u. Parse (BaseURL cfg) = Inr u)) \<and>
   (Parse (BaseURL cfg) = Inr u \<and> IsAbs u \<longrightarrow> (\<exists>c. NewClient cfg = Inr c)) \<and>
   (NewClient cfg = Inr c \<longrightarrow>
      (\<exists>u. Parse (BaseURL cfg) = Inr u \<and> baseURL c = Some u \<and>
         (\<forall>path params. Client_URL c path params = Inr (URL_String (resolved u path params))))) \<and>
   (NewClient cfg = Inl err \<longrightarrow>
      TrimSpace (BaseURL cfg) = [] \<and> err = BaseURLRequired \<or>
      (\<exists>e. Parse (BaseURL cfg) = Inl e \<and> err = ParseBaseURL e))"
proof (intro conjI impI)
  show "(\<exists>c. NewClient cfg = Inr c) \<longleftrightarrow>
      TrimSpace (BaseURL cfg) \<noteq> [] \<and> (\<exists>u. Parse (BaseURL cfg) = Inr u)"
    by (cases "Parse (BaseURL cfg)") (auto simp: NewClient_def)
next
  assume "Parse (BaseURL cfg) = Inr u \<and> IsAbs u"
  then show "\<exists>c. NewClient cfg = Inr c"
    using absolute_not_blank [of "BaseURL cfg" u] by (simp add: NewClient_def)
next
  assume "NewClient cfg = Inr c"
  then show "\<exists>u. Parse (BaseURL cfg) = Inr u \<and> baseURL c = Some u \<and>
         (\<forall>path params. Client_URL c path params = Inr (URL_String (resolved u path params)))"
    by (cases "Parse (BaseURL cfg)")
       (auto simp: NewClient_def Client_URL_def buildURL_def split: if_splits)
next
  assume "NewClient cfg = Inl err"
  then show "TrimSpace (BaseURL cfg) = [] \<and> err = BaseURLRequired \<or>
      (\<exists>e. Parse (BaseURL cfg) = Inl e \<and> err = ParseBaseURL e)"
    by (cases "Parse (BaseURL cfg)") (auto simp: NewClient_def split: if_splits)
qed


text \<open>
  The claim as stated fails: \<open>/api\<close> parses as a URL that is not absolute, and \<open>NewClient\<close>
  returns a client for it.
\<close>

theorem NewClient_outcome_counterexample:
  "NewClient \<lparr>BaseURL = ''/api'', Timeout = 0, UserAgent = []\<rparr> =
     Inr \<lparr>baseURL = Some (empty_URL\<lparr>Path := ''/api''\<rparr>), http_Timeout = 10 * Second,
          userAgent = []\<rparr> \<and>
   Parse ''/api'' = Inr (empty_URL\<lparr>Path := ''/api''\<rparr>) \<and>
   \<not> IsAbs (empty_URL\<lparr>Path := ''/api''\<rparr>)"
  by code_simp


theorem NewClient_outcome_witness:
  "(\<exists>c. NewClient \<lparr>BaseURL = ''https://v6.db.transport.rest'', Timeout = 0, UserAgent = []\<rparr> = Inr c) \<and>
   (\<exists>c. NewClient \<lparr>BaseURL = ''/api'', Timeout = 0, UserAgent = []\<rparr> = Inr c) \<and>
   (\<nexists>c. NewClient \<lparr>BaseURL = '' '', Timeout = 0, UserAgent = []\<rparr> = Inr c) \<and>
   (\<nexists>c. NewClient \<lparr>BaseURL = ''http://[::1'', Timeout = 0, UserAgent = []\<rparr> = Inr c)"
proof -
  have p1: "Parse ''https://v6.db.transport.rest'' =
      Inr (empty_URL\<lparr>Scheme := ''https'', Host := ''v6.db.transport.rest''\<rparr>)"
    by code_simp
  have a1: "IsAbs (empty_URL\<lparr>Scheme := ''https'', Host := ''v6.db.transport.rest''\<rparr>)"
    by code_simp
  have p2: "Parse ''/api'' = Inr (empty_URL\<lparr>Path := ''/api''\<rparr>)"
    by code_simp
  have t2: "TrimSpace ''/api'' \<noteq> []"
    by code_simp
  have t3: "TrimSpace '' '' = []"
    by code_simp
  have p4: "Parse ''http://[::1'' = Inl MissingBracket"
    by code_simp
  have w1: "\<exists>c. NewClient \<lparr>BaseURL = ''https://v6.db.transport.rest'', Timeout = 0, UserAgent = []\<rparr> = Inr c"
    using NewClient_outcome [THEN conjunct2, THEN conjunct1,
        of "\<lparr>BaseURL = ''https://v6.db.transport.rest'', Timeout = 0, UserAgent = []\<rparr>"
        "empty_URL\<lparr>Scheme := ''https'', Host := ''v6.db.transport.rest''\<rparr>"] p1 a1
    by simp
  have w2: "\<exists>c. NewClient \<lparr>BaseURL = ''/api'', Timeout = 0, UserAgent = []\<rparr> = Inr c"
    using NewClient_outcome [THEN conjunct1, of "\<lparr>BaseURL = ''/api'', Timeout = 0, UserAgent = []\<rparr>"]
      p2 t2
    by simp
  have w3: "\<nexists>c. NewClient \<lparr>BaseURL = '' '', Timeout = 0, UserAgent = []\<rparr> = Inr c"
    using NewClient_outcome [THEN conjunct1, of "\<lparr>BaseURL = '' '', Timeout = 0, UserAgent = []\<rparr>"] t3
    by simp
  have w4: "\<nexists>c. NewClient \<lparr>BaseURL = ''http://[::1'', Timeout = 0, UserAgent = []\<rparr> = Inr c"
    using NewClient_outcome [THEN conjunct1,
        of "\<lparr>BaseURL = ''http://[::1'', Timeout = 0, UserAgent = []\<rparr>"] p4
    by simp
  from w1 w2 w3 w4 show ?thesis by blast
qed

subsection \<open>Classifying the response\<close>

text \<open>
  The request that \<open>Get\<close> hands to the transport: the URL it builds, parsed again by
  \<open>NewRequest\<close>, with the \<open>Accept\<close> header and, when one is configured, the \<open>User-Agent\<close>.
\<close>

definition issued_request :: "Client \<Rightarrow> string \<Rightarrow> Values \<Rightarrow> api_error + Request" where
  "issued_request cl path params =
     (case buildURL (baseURL cl) path params of
        Inl err \<Rightarrow> Inl err
      | Inr urlStr \<Rightarrow>
          (case NewRequest urlStr of
             Inl err \<Rightarrow> Inl (CreateRequest err)
           | Inr req \<Rightarrow>
               Inr (req\<lparr>Header := [(''Accept'', ''application/json'')] @
                     (if userAgent cl \<noteq> [] then [(''User-Agent'', userAgent cl)] else [])\<rparr>)))"

lemma Get_unfold:
  "Get do (Some cl) path params =
     (if baseURL cl = None then Inl ClientNotConfigured
      else
        (case issued_request cl path params of
           Inl err \<Rightarrow> Inl err
         | Inr req \<Rightarrow>
             (case do req of
                Inl err \<Rightarrow> Inl (RequestFailed err)
              | Inr resp \<Rightarrow>
                  (case ReadAll resp of
                     Inl err \<Rightarrow> Inl (ReadResponse err)
                   | Inr body \<Rightarrow>
                       if StatusCode resp < 200 \<or> 300 \<le> StatusCode resp
                       then Inl (Failure \<lparr>Status = StatusCode resp, Body = body\<rparr>)
                       else Inr body))))"
  by (simp add: Get_def issued_request_def Let_def split: sum.splits)

lemma Get_success_only:
  assumes "Get do c path params = Inr body"
  shows "\<exists>cl req resp. c = Some cl \<and> issued_request cl path params = Inr req \<and>
      do req = Inr resp \<and> ReadAll resp = Inr body \<and>
      200 \<le> StatusCode resp \<and> StatusCode resp \<le> 299"
proof (cases c)
  case None
  with assms show ?thesis by (simp add: Get_def)
next
  case (Some cl)
  with assms have g: "Get do (Some cl) path params = Inr body" by simp
  then obtain req where req: "issued_request cl path params = Inr req"
    by (cases "issued_request cl path params") (auto simp: Get_unfold split: if_splits)
  with g obtain resp where resp: "do req = Inr resp"
    by (cases "do req") (auto simp: Get_unfold split: if_splits)
  with g req have "ReadAll resp = Inr body \<and> 200 \<le> StatusCode resp \<and> StatusCode resp \<le> 299"
    by (cases "ReadAll resp") (auto simp: Get_unfold split: if_splits)
  with Some req resp show ?thesis by blast
qed

text \<open>
  Claim C4. When the transport answers the request that \<open>Get\<close> issues with a response
  whose body can be read, \<open>Get\<close> returns the body for a status from 200 to 299 and, for
  every other status, the failure \<open>HTTPError\<close> that carries that status and that body,
  never the body as a success. Conversely a success of \<open>Get\<close> always stems from a
  response with a status from 200 to 299. The message of the failure is
  \<open>HTTPError_Error\<close>, which claim C5 describes.
\<close>

theorem Get_status_classes:
  "(baseURL cl \<noteq> None \<and> issued_request cl path params = Inr req \<and> do req = Inr resp \<and>
    ReadAll resp = Inr body \<longrightarrow>
      Get do (Some cl) path params =
        (if 200 \<le> StatusCode resp \<and> StatusCode resp \<le> 299 then Inr body
         else Inl (Failure \<lparr>Status = StatusCode resp, Body = body\<rparr>))) \<and>
   (Get do c path params = Inr body \<longrightarrow>
      (\<exists>cl req resp. c = Some cl \<and> issued_request cl path params = Inr req \<and>
         do req = Inr resp \<and> ReadAll resp = Inr body \<and>
         200 \<le> StatusCode resp \<and> StatusCode resp \<le> 299))"
  using Get_success_only [of "do" c path params body]
  by (auto simp: Get_unfold)

theorem Get_status_classes_witness:
  "Get (\<lambda>req. Inr \<lparr>StatusCode = 404, ReadAll = Inr ''{\"error\":\"not found\"}''\<rparr>)
     (Some \<lparr>baseURL = Some (empty_URL\<lparr>Scheme := ''http'', Host := ''127.0.0.1:8080''\<rparr>),
            http_Timeout = 10 * Second, userAgent = ''dbrest/dev''\<rparr>) ''/missing'' [] =
     Inl (Failure \<lparr>Status = 404, Body = ''{\"error\":\"not found\"}''\<rparr>) \<and>
   HTTPError_Error \<lparr>Status = 404, Body = ''{\"error\":\"not found\"}''\<rparr> =
     ''request failed: 404 {\"error\":\"not found\"}'' \<and>
   Get (\<lambda>req. Inr \<lparr>StatusCode = 200, ReadAll = Inr ''{\"ok\":true}''\<rparr>)
     (Some \<lparr>baseURL = Some (empty_URL\<lparr>Scheme := ''http'', Host := ''127.0.0.1:8080''\<rparr>),
            http_Timeout = 10 * Second, userAgent = ''dbrest/dev''\<rparr>) ''/missing'' [] =
     Inr ''{\"ok\":true}''"
proof -
  let ?cl = "\<lparr>baseURL = Some (empty_URL\<lparr>Scheme := ''http'', Host := ''127.0.0.1:8080''\<rparr>),
            http_Timeout = 10 * Second, userAgent = ''dbrest/dev''\<rparr>"
  let ?req = "\<lparr>Method = ''GET'',
      RequestURL = empty_URL\<lparr>Scheme := ''http'', Host := ''127.0.0.1:8080'', Path := ''/missing''\<rparr>,
      Header = [(''Accept'', ''application/json''), (''User-Agent'', ''dbrest/dev'')]\<rparr>"
  have req: "issued_request ?cl ''/missing'' [] = Inr ?req"
    by code_simp
  have msg: "HTTPError_Error \<lparr>Status = 404, Body = ''{\"error\":\"not found\"}''\<rparr> =
     ''request failed: 404 {\"error\":\"not found\"}''"
    by code_simp
  show ?thesis
    using
      Get_status_classes [of ?cl "''/missing''" "[]" ?req
        "\<lambda>req. Inr \<lparr>StatusCode = 404, ReadAll = Inr ''{\"error\":\"not found\"}''\<rparr>"
        "\<lparr>StatusCode = 404, ReadAll = Inr ''{\"error\":\"not found\"}''\<rparr>"
        "''{\"error\":\"not found\"}''"]
      Get_status_classes [of ?cl "''/missing''" "[]" ?req
        "\<lambda>req. Inr \<lparr>StatusCode = 200, ReadAll = Inr ''{\"ok\":true}''\<rparr>"
        "\<lparr>StatusCode = 200, ReadAll = Inr ''{\"ok\":true}''\<rparr>"
        "''{\"ok\":true}''"]
    by (simp add: req msg)
qed

subsection \<open>Rendering a delay\<close>

text \<open>
  The spec's wording of a signed whole number: an explicit sign, then the decimal digits of
  the magnitude.
\<close>

definition signed_decimal :: "int \<Rightarrow> string" where
  "signed_decimal n = (if n < 0 then ''-'' else ''+'') @ dec_nat (nat \<bar>n\<bar>)"

lemma fmt_plus_d_signed: "fmt_plus_d n = signed_decimal n"
  by (simp add: fmt_plus_d_def signed_decimal_def)

lemma smod_60_dvd: "(d::int) smod 60 = 0 \<longleftrightarrow> 60 dvd d"
proof -
  have "d smod 60 = 0 \<longleftrightarrow> \<bar>d\<bar> mod 60 = 0"
    by (auto simp: signed_modulo_int_def sgn_if)
  also have "\<dots> \<longleftrightarrow> 60 dvd \<bar>d\<bar>"
    by (simp add: dvd_eq_mod_eq_0)
  finally show ?thesis by simp
qed

lemma sdiv_60_exact: "60 dvd (d::int) \<Longrightarrow> d sdiv 60 = d div 60"
  by (auto simp: signed_divide_int_def sgn_if)

text \<open>
  Claim C7. \<open>formatDelay\<close> of an absent delay is \<open>-\<close>; of zero it is \<open>0m\<close>; of a non-zero
  multiple of 60 it is the signed number of minutes \<open>d div 60\<close>, which is exact
  (\<open>60 * (d div 60) = d\<close>), followed by \<open>m\<close>; of every other value it is the signed number
  of seconds, the value itself, followed by \<open>s\<close>. Nothing is rounded.
\<close>

theorem formatDelay_cases:
  "formatDelay None = ''-'' \<and>
   formatDelay (Some 0) = ''0m'' \<and>
   (\<forall>d. d \<noteq> 0 \<and> 60 dvd d \<longrightarrow>
      formatDelay (Some d) = signed_decimal (d div 60) @ ''m'' \<and> 60 * (d div 60) = d) \<and>
   (\<forall>d. \<not> 60 dvd d \<longrightarrow> formatDelay (Some d) = signed_decimal d @ ''s'')"
proof (intro conjI allI impI)
  show "formatDelay None = ''-''" "formatDelay (Some 0) = ''0m''"
    by (simp_all add: formatDelay_def)
next
  fix d :: int
  assume d: "d \<noteq> 0 \<and> 60 dvd d"
  then show "formatDelay (Some d) = signed_decimal (d div 60) @ ''m''"
    by (simp add: formatDelay_def smod_60_dvd sdiv_60_exact fmt_plus_d_signed)
  from d show "60 * (d div 60) = d"
    by auto
next
  fix d :: int
  assume d: "\<not> 60 dvd d"
  then have "d \<noteq> 0" by auto
  with d show "formatDelay (Some d) = signed_decimal d @ ''s''"
    by (simp add: formatDelay_def smod_60_dvd fmt_plus_d_signed)
qed

theorem formatDelay_cases_witness:
  "formatDelay (Some 120) = ''+2m'' \<and> formatDelay (Some (- 90)) = ''-90s'' \<and>
   formatDelay (Some (- 60)) = ''-1m'' \<and> formatDelay (Some 90) = ''+90s''"
proof -
  have sd: "signed_decimal 2 = ''+2''" "signed_decimal (- 90) = ''-90''"
    "signed_decimal (- 1) = ''-1''" "signed_decimal 90 = ''+90''"
    by (simp_all add: signed_decimal_def dec_nat.simps digit_char_def)
  have m: "\<And>d. d \<noteq> 0 \<and> 60 dvd d \<Longrightarrow> formatDelay (Some d) = signed_decimal (d div 60) @ ''m''"
    and s: "\<And>d. \<not> 60 dvd d \<Longrightarrow> formatDelay (Some d) = signed_decimal d @ ''s''"
    using formatDelay_cases by blast+
  show ?thesis
    using m [of 120] m [of "- 60"] s [of "- 90"] s [of 90] by (simp add: sd)
qed

subsection \<open>Decoding \<^verbatim>\<open>null\<close>\<close>

lemma json_parse_null: "json_parse ''null'' = Some JNull"
  by code_simp

lemma Unmarshal_null_slice:
  "Unmarshal (decode_slice tyname elem zero) ''null'' cur = Inr []"
  by (simp add: Unmarshal_def json_parse_null decode_slice_def decode_backed_def)

lemma Unmarshal_null_struct:
  "Unmarshal (decode_struct tyname field) ''null'' cur = Inr cur"
  by (simp add: Unmarshal_def json_parse_null decode_struct_def)

text \<open>
  Claim C10. The four bytes \<^verbatim>\<open>null\<close> are no decode error for any of the five renderers.
  Into a slice they decode as the \<^verbatim>\<open>nil\<close> slice, into a response struct they leave the
  zero value, whose sequence is empty; so each renderer returns the output for an empty
  result: the line \<^verbatim>\<open>no results\<close> with the header, the empty string without it.
\<close>

theorem null_renders_empty:
  "Unmarshal (decode_slice ''[]format.Location'' decode_Location zero_Location) ''null'' [] = Inr []
   \<and> Unmarshal (decode_slice ''[]format.Stopover'' decode_Stopover zero_Stopover) ''null'' [] = Inr []
   \<and> map_sum id Journeys (Unmarshal decode_JourneysResponse ''null'' zero_JourneysResponse) = Inr []
   \<and> map_sum id (Stopovers \<circ> Trip) (Unmarshal decode_TripResponse ''null'' zero_TripResponse) = Inr []
   \<and> map_sum id Movements (Unmarshal decode_RadarResponse ''null'' zero_RadarResponse) = Inr []
   \<and> LocationsPlain ''null'' withHeader = Inr (if withHeader then ''no results'' @ newline else [])
   \<and> StopoversPlain ''null'' withHeader = Inr (if withHeader then ''no results'' @ newline else [])
   \<and> JourneysPlain ''null'' withHeader = Inr (if withHeader then ''no results'' @ newline else [])
   \<and> TripPlain ''null'' withHeader = Inr (if withHeader then ''no results'' @ newline else [])
   \<and> RadarPlain ''null'' withHeader = Inr (if withHeader then ''no results'' @ newline else [])"
proof -
  have j: "Unmarshal decode_JourneysResponse ''null'' zero_JourneysResponse = Inr zero_JourneysResponse"
    by (simp add: decode_JourneysResponse_def Unmarshal_null_struct)
  have t: "Unmarshal decode_TripResponse ''null'' zero_TripResponse = Inr zero_TripResponse"
    by (simp add: decode_TripResponse_def Unmarshal_null_struct)
  have r: "Unmarshal decode_RadarResponse ''null'' zero_RadarResponse = Inr zero_RadarResponse"
    by (simp add: decode_RadarResponse_def Unmarshal_null_struct)
  have z: "Journeys zero_JourneysResponse = []" "Stopovers (Trip zero_TripResponse) = []"
    "Movements zero_RadarResponse = []"
    by (simp_all add: zero_JourneysResponse_def zero_TripResponse_def zero_Trip_def
        zero_RadarResponse_def)
  have "LocationsPlain ''null'' withHeader = Inr (no_results withHeader)"
    by (simp add: LocationsPlain_def Unmarshal_null_slice)
  moreover have "StopoversPlain ''null'' withHeader = Inr (no_results withHeader)"
    by (simp add: StopoversPlain_def Unmarshal_null_slice)
  moreover have "JourneysPlain ''null'' withHeader = Inr (no_results withHeader)"
    by (simp add: JourneysPlain_def j z)
  moreover have "TripPlain ''null'' withHeader = Inr (no_results withHeader)"
    by (simp add: TripPlain_def t z)
  moreover have "RadarPlain ''null'' withHeader = Inr (no_results withHeader)"
    by (simp add: RadarPlain_def r z)
  ultimately show ?thesis
    by (simp add: no_results_def Unmarshal_null_slice j t r z)
qed

subsection \<open>An empty result\<close>

text \<open>
  Claim C8. Whenever the payload decodes and the decoded sequence is empty, each of the
  five renderers returns exactly the line \<^verbatim>\<open>no results\<close>, ended by a newline, when the
  header is asked for, and exactly the empty string when it is not. The sequence is the
  decoded slice for locations and stopovers, the journeys of the response, the stopovers
  of the trip of the response, and the movements of the response.
\<close>

theorem empty_sequence_rendering:
  "(Unmarshal (decode_slice ''[]format.Location'' decode_Location zero_Location) locations [] = Inr []
      \<longrightarrow> LocationsPlain locations withHeader
            = Inr (if withHeader then ''no results'' @ newline else []))
   \<and> (Unmarshal (decode_slice ''[]format.Stopover'' decode_Stopover zero_Stopover) stopovers [] = Inr []
      \<longrightarrow> StopoversPlain stopovers withHeader
            = Inr (if withHeader then ''no results'' @ newline else []))
   \<and> (Unmarshal decode_JourneysResponse journeys zero_JourneysResponse = Inr jresp
        \<and> Journeys jresp = []
      \<longrightarrow> JourneysPlain journeys withHeader
            = Inr (if withHeader then ''no results'' @ newline else []))
   \<and> (Unmarshal decode_TripResponse trip zero_TripResponse = Inr tresp
        \<and> Stopovers (Trip tresp) = []
      \<longrightarrow> TripPlain trip withHeader
            = Inr (if withHeader then ''no results'' @ newline else []))
   \<and> (Unmarshal decode_RadarResponse radar zero_RadarResponse = Inr rresp
        \<and> Movements rresp = []
      \<longrightarrow> RadarPlain radar withHeader
            = Inr (if withHeader then ''no results'' @ newline else []))"
  by (simp add: LocationsPlain_def StopoversPlain_def JourneysPlain_def TripPlain_def
      RadarPlain_def no_results_def)

theorem empty_sequence_rendering_witness:
  "LocationsPlain ''[]'' True = Inr (''no results'' @ newline)
   \<and> StopoversPlain '' [ ] '' True = Inr (''no results'' @ newline)
   \<and> JourneysPlain ''{}'' True = Inr (''no results'' @ newline)
   \<and> TripPlain ''{\"trip\":{\"line\":{\"name\":\"ICE 1\"},\"stopovers\":[]}}'' True
       = Inr (''no results'' @ newline)
   \<and> RadarPlain ''{\"movements\":[]}'' True = Inr (''no results'' @ newline)"
proof -
  have l: "Unmarshal (decode_slice ''[]format.Location'' decode_Location zero_Location) ''[]'' []
             = Inr []"
    by code_simp
  have s: "Unmarshal (decode_slice ''[]format.Stopover'' decode_Stopover zero_Stopover) '' [ ] '' []
             = Inr []"
    by code_simp
  have j: "Unmarshal decode_JourneysResponse ''{}'' zero_JourneysResponse
             = Inr \<lparr>Journeys = [], Journeys_spare = []\<rparr>"
    by code_simp
  have t: "Unmarshal decode_TripResponse
             ''{\"trip\":{\"line\":{\"name\":\"ICE 1\"},\"stopovers\":[]}}'' zero_TripResponse
             = Inr \<lparr>Trip = \<lparr>Trip_Line = \<lparr>Line_Name = ''ICE 1''\<rparr>, Stopovers = [],
                            Stopovers_spare = []\<rparr>\<rparr>"
    by code_simp
  have r: "Unmarshal decode_RadarResponse ''{\"movements\":[]}'' zero_RadarResponse
             = Inr \<lparr>Movements = [], Movements_spare = []\<rparr>"
    by code_simp
  show ?thesis
    using empty_sequence_rendering
      [of "''[]''" True "'' [ ] ''" "''{}''" "\<lparr>Journeys = [], Journeys_spare = []\<rparr>"
          "''{\"trip\":{\"line\":{\"name\":\"ICE 1\"},\"stopovers\":[]}}''"
          "\<lparr>Trip = \<lparr>Trip_Line = \<lparr>Line_Name = ''ICE 1''\<rparr>, Stopovers = [],
                            Stopovers_spare = []\<rparr>\<rparr>"
          "''{\"movements\":[]}''" "\<lparr>Movements = [], Movements_spare = []\<rparr>"]
    by (simp add: l s j t r)
qed

subsection \<open>A journey without legs\<close>

text \<open>
  The line of a journey that has legs, as the description of the table words it: the
  departure and the origin of the first leg, the arrival and the destination of the last
  leg, the number of transfers.
\<close>

definition Journey_row :: "Journey \<Rightarrow> string" where
  "Journey_row journey =
     pickTime (Departure (hd (Legs journey))) (PlannedDep (hd (Legs journey))) @ tab @
     locationName (Origin (hd (Legs journey))) @ tab @
     pickTime (Arrival (last (Legs journey))) (PlannedArr (last (Legs journey))) @ tab @
     locationName (Destination (last (Legs journey))) @ tab @
     fmt_d (Transfers journey) @ newline"

lemma Journey_line_row:
  "Journey_line journey = (if Legs journey = [] then [] else Journey_row journey)"
  by (cases "Legs journey") (simp_all add: Journey_line_def Journey_row_def Let_def)

lemma Journey_lines_rows:
  "concat (map Journey_line js) = concat (map Journey_row (filter (\<lambda>j. Legs j \<noteq> []) js))"
  by (induction js) (simp_all add: Journey_line_row)

text \<open>
  Claim C9. Let the payload decode to a response. When the response has journeys, the
  table is the header, if asked for, and then one line for each journey that has legs, in
  the order of the response, built from its first and its last leg; a journey without
  legs writes nothing. So when a journey without legs stands anywhere in the sequence,
  the table is the header and the lines of the journeys before and after it, the same
  lines as without it. (A sequence of journeys none of which has legs gives the header
  alone, where the empty sequence gives the line \<^verbatim>\<open>no results\<close>.)
\<close>

theorem JourneysPlain_zero_legs:
  assumes "Unmarshal decode_JourneysResponse data zero_JourneysResponse = Inr resp"
  shows "(Journeys resp \<noteq> [] \<longrightarrow>
            JourneysPlain data withHeader =
              Inr ((if withHeader
                    then ''departure'' @ tab @ ''origin'' @ tab @ ''arrival'' @ tab @
                         ''destination'' @ tab @ ''transfers'' @ newline
                    else []) @
                   concat (map Journey_row (filter (\<lambda>j. Legs j \<noteq> []) (Journeys resp)))))
       \<and> (Journeys resp = before @ journey # after \<and> Legs journey = [] \<longrightarrow>
            Journey_line journey = [] \<and>
            JourneysPlain data withHeader =
              Inr ((if withHeader
                    then ''departure'' @ tab @ ''origin'' @ tab @ ''arrival'' @ tab @
                         ''destination'' @ tab @ ''transfers'' @ newline
                    else []) @
                   concat (map Journey_row (filter (\<lambda>j. Legs j \<noteq> []) (before @ after)))))"
proof (intro conjI impI)
  assume "Journeys resp \<noteq> []"
  then show "JourneysPlain data withHeader =
      Inr ((if withHeader
            then ''departure'' @ tab @ ''origin'' @ tab @ ''arrival'' @ tab @
                 ''destination'' @ tab @ ''transfers'' @ newline
            else []) @
           concat (map Journey_row (filter (\<lambda>j. Legs j \<noteq> []) (Journeys resp))))"
    using assms by (simp add: JourneysPlain_def Journey_lines_rows)
next
  assume "Journeys resp = before @ journey # after \<and> Legs journey = []"
  then show "Journey_line journey = []"
    by (simp add: Journey_line_row)
next
  assume a: "Journeys resp = before @ journey # after \<and> Legs journey = []"
  then have "filter (\<lambda>j. Legs j \<noteq> []) (Journeys resp)
               = filter (\<lambda>j. Legs j \<noteq> []) (before @ after)"
    by simp
  moreover from a have "Journeys resp \<noteq> []"
    by simp
  ultimately show "JourneysPlain data withHeader =
      Inr ((if withHeader
            then ''departure'' @ tab @ ''origin'' @ tab @ ''arrival'' @ tab @
                 ''destination'' @ tab @ ''transfers'' @ newline
            else []) @
           concat (map Journey_row (filter (\<lambda>j. Legs j \<noteq> []) (before @ after))))"
    using assms by (simp add: JourneysPlain_def Journey_lines_rows)
qed

text \<open>
  Three journeys, the second without legs: the table has the lines of the first and the
  third.
\<close>

theorem JourneysPlain_zero_legs_witness:
  "JourneysPlain
     ''{\"journeys\":[{\"legs\":[{\"origin\":{\"id\":\"8011160\",\"name\":\"Berlin Hbf\"},\"destination\":{\"id\":\"8002549\",\"name\":\"Hamburg Hbf\"},\"departure\":\"t1\",\"arrival\":\"t2\"}],\"transfers\":0},{\"legs\":[],\"transfers\":3},{\"legs\":[{\"origin\":{\"id\":\"8011160\",\"name\":\" \"},\"plannedDeparture\":\"t3\"},{\"arrival\":\"t4\"}],\"transfers\":1}]}''
     True
   = Inr (''departure'' @ tab @ ''origin'' @ tab @ ''arrival'' @ tab @ ''destination'' @ tab @
          ''transfers'' @ newline @
          ''t1'' @ tab @ ''Berlin Hbf'' @ tab @ ''t2'' @ tab @ ''Hamburg Hbf'' @ tab @ ''0'' @ newline @
          ''t3'' @ tab @ ''8011160'' @ tab @ ''t4'' @ tab @ ''-'' @ tab @ ''1'' @ newline)"
proof -
  define first :: Journey where
    "first = \<lparr>Legs = [zero_Leg\<lparr>Origin := Some (zero_Location\<lparr>ID := ''8011160'', Name := ''Berlin Hbf''\<rparr>),
                               Destination := Some (zero_Location\<lparr>ID := ''8002549'', Name := ''Hamburg Hbf''\<rparr>),
                               Departure := ''t1'', Arrival := ''t2''\<rparr>],
              Legs_spare = [], Transfers = 0\<rparr>"
  define third :: Journey where
    "third = \<lparr>Legs = [zero_Leg\<lparr>Origin := Some (zero_Location\<lparr>ID := ''8011160'', Name := '' ''\<rparr>),
                               PlannedDep := ''t3''\<rparr>,
                      zero_Leg\<lparr>Arrival := ''t4''\<rparr>],
              Legs_spare = [], Transfers = 1\<rparr>"
  have decoded: "Unmarshal decode_JourneysResponse
     ''{\"journeys\":[{\"legs\":[{\"origin\":{\"id\":\"8011160\",\"name\":\"Berlin Hbf\"},\"destination\":{\"id\":\"8002549\",\"name\":\"Hamburg Hbf\"},\"departure\":\"t1\",\"arrival\":\"t2\"}],\"transfers\":0},{\"legs\":[],\"transfers\":3},{\"legs\":[{\"origin\":{\"id\":\"8011160\",\"name\":\" \"},\"plannedDeparture\":\"t3\"},{\"arrival\":\"t4\"}],\"transfers\":1}]}''
     zero_JourneysResponse
     = Inr \<lparr>Journeys = [first] @ \<lparr>Legs = [], Legs_spare = [], Transfers = 3\<rparr> # [third],
             Journeys_spare = []\<rparr>"
    unfolding first_def third_def by code_simp
  have rows: "concat (map Journey_row (filter (\<lambda>j. Legs j \<noteq> []) ([first] @ [third])))
     = ''t1'' @ tab @ ''Berlin Hbf'' @ tab @ ''t2'' @ tab @ ''Hamburg Hbf'' @ tab @ ''0'' @ newline @
       ''t3'' @ tab @ ''8011160'' @ tab @ ''t4'' @ tab @ ''-'' @ tab @ ''1'' @ newline"
    unfolding first_def third_def by code_simp
  have skipped: "Journeys \<lparr>Journeys = [first] @ \<lparr>Legs = [], Legs_spare = [], Transfers = 3\<rparr> # [third],
             Journeys_spare = []\<rparr>
                   = [first] @ \<lparr>Legs = [], Legs_spare = [], Transfers = 3\<rparr> # [third]
                 \<and> Legs \<lparr>Legs = [], Legs_spare = [], Transfers = 3\<rparr> = []"
    by simp
  show ?thesis
    using JourneysPlain_zero_legs
      [OF decoded, where withHeader = True, THEN conjunct2, THEN mp, OF skipped, THEN conjunct2]
    by (simp only: rows if_True append_assoc)
qed

subsection \<open>A payload in an envelope\<close>

text \<open>
  \<^verbatim>\<open>StopoversPlain\<close> decodes into a slice, and a JSON object does not fit a slice: every
  payload whose top level is an object is refused, whatever its members are.
\<close>

lemma StopoversPlain_object:
  assumes "json_parse data = Some (JObject members)"
  shows "StopoversPlain data withHeader
           = Inl (UnmarshalTypeError ''object'' ''[]format.Stopover'')"
  using assms
  by (simp add: StopoversPlain_def Unmarshal_def decode_slice_def decode_backed_def json_kind_def)

text \<open>
  Claim C1. The payload of \<^verbatim>\<open>TestStopoversPlainEnvelope\<close>, one stopover in an object under
  \<^verbatim>\<open>departures\<close>, is refused with the error of a type that does not fit, while the test
  expects the table of the record. The bare array of the same record gives that table.
\<close>

theorem StopoversPlain_envelope:
  "StopoversPlain
     ''{\"departures\":[{\"when\":\"2024-01-01T12:00:00+01:00\",\"line\":{\"name\":\"S1\"},\"direction\":\"Frohnau\",\"platform\":\"1\",\"delay\":0,\"cancelled\":false}]}''
     True
   = Inl (UnmarshalTypeError ''object'' ''[]format.Stopover'')"
  by code_simp

lemma StopoversPlain_bare:
  "StopoversPlain
     ''[{\"when\":\"2024-01-01T12:00:00+01:00\",\"line\":{\"name\":\"S1\"},\"direction\":\"Frohnau\",\"platform\":\"1\",\"delay\":0,\"cancelled\":false}]''
     True
   = Inr (''time'' @ tab @ ''line'' @ tab @ ''direction'' @ tab @ ''platform'' @ tab @ ''delay'' @ tab @
          ''status'' @ newline @
          ''2024-01-01T12:00:00+01:00'' @ tab @ ''S1'' @ tab @ ''Frohnau'' @ tab @ ''1'' @ tab @ ''0m'' @
          tab @ ''-'' @ newline)"
  by code_simp

text \<open>
  A key that comes three times: the second array is shorter than the first and leaves
  the second journey in the backing array, and the third array, of two empty objects, is
  stored into the first journey and into the one left there.
\<close>

lemma JourneysPlain_repeated_key:
  "JourneysPlain
     ''{\"journeys\":[{\"legs\":[{\"departure\":\"a\"}],\"transfers\":1},{\"legs\":[{\"departure\":\"b\"}],\"transfers\":2}],\"journeys\":[{}],\"journeys\":[{},{}]}''
     False
   = Inr (''a'' @ tab @ ''-'' @ tab @ ''-'' @ tab @ ''-'' @ tab @ ''1'' @ newline @
          ''b'' @ tab @ ''-'' @ tab @ ''-'' @ tab @ ''-'' @ tab @ ''2'' @ newline)"
  by code_simp

text \<open>The two other tests of the package give the tables they expect.\<close>

lemma TestStopoversPlain:
  "StopoversPlain
     ''[{\"when\":\"2024-01-01T12:00:00+01:00\",\"line\":{\"name\":\"S1\"},\"direction\":\"Frohnau\",\"platform\":\"1\",\"delay\":120,\"cancelled\":false}]''
     True
   = Inr (''time'' @ tab @ ''line'' @ tab @ ''direction'' @ tab @ ''platform'' @ tab @ ''delay'' @ tab @
          ''status'' @ newline @
          ''2024-01-01T12:00:00+01:00'' @ tab @ ''S1'' @ tab @ ''Frohnau'' @ tab @ ''1'' @ tab @ ''+2m'' @
          tab @ ''-'' @ newline)"
  by code_simp

lemma TestLocationsPlain:
  "LocationsPlain
     ''[{\"id\":\"123\",\"name\":\"Berlin Hbf\",\"type\":\"station\",\"latitude\":52.525,\"longitude\":13.369,\"distance\":120}]''
     True
   = Inr (''id'' @ tab @ ''name'' @ tab @ ''type'' @ tab @ ''latitude'' @ tab @ ''longitude'' @ tab @
          ''distance_m'' @ newline @
          ''123'' @ tab @ ''Berlin Hbf'' @ tab @ ''station'' @ tab @ ''52.525000'' @ tab @
          ''13.369000'' @ tab @ ''120'' @ newline)"
  by code_simp

end
